theory Spec2Isabelle
  imports Main "HOL-Library.AList" "HOL-Library.Sublist"
begin

section \<open>Texts, values and documents\<close>

text \<open>
  A Python \<open>str\<close> is a sequence of Unicode code points, and slicing and \<open>len\<close> count code
  points. Texts are therefore lists of code points; \<open>u\<close> reads an ASCII literal of the source.
  Dictionary keys, field names and environment variable names are ASCII identifiers in the
  source and stay \<open>string\<close>s.
\<close>

type_synonym ustr = "nat list"

definition u :: "string \<Rightarrow> ustr" where
  "u s = map of_char s"

text \<open>
  The \<open>datetime\<close> objects of the source, naive UTC values as the store returns them. The
  driver encodes a timestamp at millisecond resolution on every write; a clock reading or a
  request's \<open>due_date\<close> enters the model as the store holds it.
\<close>

record datetime =
  year :: nat
  month :: nat
  day :: nat
  hour :: nat
  minute :: nat
  second :: nat
  microsecond :: nat

text \<open>
  An \<open>ObjectId\<close> is kept as what \<open>str\<close> renders: the lower-case hexadecimal digits of
  its bytes, 24 of them for the 12 bytes of an identifier the driver generates.
\<close>

datatype oid = Oid ustr

text \<open>The values this service writes into a task document and reads back.\<close>

datatype val = VNone | VBool bool | VStr ustr | VDate datetime | VId oid

text \<open>
  A document is a Python \<open>dict\<close>: keys in insertion order, \<open>d[k] = v\<close> is
  \<open>AList.update k v d\<close> (in place, or appended), \<open>d.pop(k)\<close> is \<open>AList.delete k d\<close>,
  \<open>k in d\<close> and \<open>d[k]\<close> read \<open>map_of d k\<close>.
\<close>

type_synonym document = "(string \<times> val) list"

subsection \<open>Rendering\<close>

fun digits :: "nat \<Rightarrow> nat \<Rightarrow> ustr" where
  "digits 0 n = []"
| "digits (Suc w) n = digits w (n div 10) @ [48 + n mod 10]"

text \<open>
  \<open>datetime.isoformat(sep)\<close>: \<open>YYYY-MM-DDTHH:MM:SS\<close>, followed by \<open>.ffffff\<close> when the
  microsecond is not zero.
\<close>

definition isoformat_sep :: "ustr \<Rightarrow> datetime \<Rightarrow> ustr" where
  "isoformat_sep sep d =
     digits 4 (year d) @ u ''-'' @ digits 2 (month d) @ u ''-'' @ digits 2 (day d) @ sep @
     digits 2 (hour d) @ u '':'' @ digits 2 (minute d) @ u '':'' @ digits 2 (second d) @
     (if microsecond d \<noteq> 0 then u ''.'' @ digits 6 (microsecond d) else [])"

definition isoformat :: "datetime \<Rightarrow> ustr" where
  "isoformat d = isoformat_sep (u ''T'') d"

fun str_oid :: "oid \<Rightarrow> ustr" where
  "str_oid (Oid h) = h"

text \<open>Python's \<open>str(v)\<close>.\<close>

fun py_str :: "val \<Rightarrow> ustr" where
  "py_str VNone = u ''None''"
| "py_str (VBool b) = (if b then u ''True'' else u ''False'')"
| "py_str (VStr s) = s"
| "py_str (VDate d) = isoformat_sep (u '' '') d"
| "py_str (VId i) = str_oid i"

section \<open>Exceptions and the HTTP layer\<close>

text \<open>
  \<open>HTTPException status_code detail\<close> is FastAPI's exception; \<open>Exception text\<close> is any
  other exception, with the text \<open>str(e)\<close> gives. A handler that returns answers 200, an
  \<open>HTTPException\<close> answers its status code and detail, and any other exception leaving a
  handler is answered 500 by the framework.
\<close>

datatype exn = HTTPException nat ustr | Exception ustr

fun str_exn :: "exn \<Rightarrow> ustr" where
  "str_exn (Exception t) = t"
| "str_exn (HTTPException c d) = digits (if c < 10 then 1 else if c < 100 then 2 else 3) c @ u '': '' @ d"

fun status_code :: "exn + 'a \<Rightarrow> nat" where
  "status_code (Inr r) = 200"
| "status_code (Inl (HTTPException c d)) = c"
| "status_code (Inl (Exception t)) = 500"

section \<open>The store\<close>

text \<open>
  The document store behind the global \<open>db\<close> of the source (\<open>None\<close> when no connection
  was configured). \<open>colls\<close> holds every collection by name, its documents in insertion
  order. \<open>fault = Some msg\<close> is a store that cannot serve requests: every driver call
  raises an exception with text \<open>msg\<close>. \<open>name\<close> is the attribute \<open>hasattr(db, 'name')\<close>
  looks for.
\<close>

record mongo =
  name :: "ustr option"
  colls :: "(string \<times> document list) list"
  fault :: "ustr option"

type_synonym db = "mongo option"

definition collection :: "mongo \<Rightarrow> string \<Rightarrow> document list" where
  "collection m c = (case map_of (colls m) c of None \<Rightarrow> [] | Some ds \<Rightarrow> ds)"

definition tasks :: "db \<Rightarrow> document list" where
  "tasks d = (case d of None \<Rightarrow> [] | Some m \<Rightarrow> collection m ''task'')"

text \<open>\<open>db.list_collection_names()\<close>.\<close>

definition list_collection_names :: "mongo \<Rightarrow> exn + ustr list" where
  "list_collection_names m =
     (case fault m of Some msg \<Rightarrow> Inl (Exception msg)
      | None \<Rightarrow> Inr (map (u \<circ> fst) (colls m)))"

section \<open>Diagnostics: \<open>GET /test\<close>\<close>

record diagnostics =
  backend :: ustr
  database :: ustr
  database_url :: "ustr option"
  database_name :: "ustr option"
  connection_status :: ustr
  collections :: "ustr list"

text \<open>\<open>os.getenv\<close> reads the environment; \<open>if os.getenv(k)\<close> holds for a non-empty value.\<close>

type_synonym environ = "string \<Rightarrow> ustr option"

definition env_set :: "environ \<Rightarrow> string \<Rightarrow> bool" where
  "env_set env k = (case env k of None \<Rightarrow> False | Some v \<Rightarrow> v \<noteq> [])"

definition check_mark :: ustr where "check_mark = [0x2705]"
definition cross_mark :: ustr where "cross_mark = [0x274C]"
definition warning_sign :: ustr where "warning_sign = [0x26A0, 0xFE0F]"

definition set_or_not :: "environ \<Rightarrow> string \<Rightarrow> ustr" where
  "set_or_not env k =
     (if env_set env k then check_mark @ u '' Set'' else cross_mark @ u '' Not Set'')"

text \<open>
  The statements under the inner \<open>try\<close> (lines 43 to 48): the response as they leave it.
  The \<open>except\<close> clause catches every exception of the enumeration.
\<close>

definition enumerate_collections :: "mongo \<Rightarrow> diagnostics \<Rightarrow> diagnostics" where
  "enumerate_collections m r =
     (case list_collection_names m of
        Inr cs \<Rightarrow> r\<lparr>collections := take 10 cs,
                     database := check_mark @ u '' Connected & Working''\<rparr>
      | Inl e \<Rightarrow> r\<lparr>database := warning_sign @ u ''  Connected but Error: '' @ take 50 (str_exn e)\<rparr>)"

text \<open>
  The body of the outer \<open>try\<close> (lines 38 to 50): the exception it ends with, if any, and
  the response as mutated up to there. No statement of it raises outside the inner
  \<open>try\<close>, so it always ends normally.
\<close>

definition probe :: "environ \<Rightarrow> db \<Rightarrow> diagnostics \<Rightarrow> exn option \<times> diagnostics" where
  "probe env d r =
     (case d of
        Some m \<Rightarrow>
          (None, enumerate_collections m
             (r\<lparr>database := check_mark @ u '' Available'',
                database_url := Some (set_or_not env ''DATABASE_URL''),
                database_name := Some (case name m of Some n \<Rightarrow> n
                                       | None \<Rightarrow> check_mark @ u '' Connected''),
                connection_status := u ''Connected''\<rparr>))
      | None \<Rightarrow> (None, r\<lparr>database := warning_sign @ u ''  Available but not initialized''\<rparr>))"

definition test_database :: "environ \<Rightarrow> db \<Rightarrow> exn + diagnostics" where
  "test_database env d =
     (let response = \<lparr>backend = check_mark @ u '' Running'',
                      database = cross_mark @ u '' Not Available'',
                      database_url = None,
                      database_name = None,
                      connection_status = u ''Not Connected'',
                      collections = []\<rparr>;
          response = (case probe env d response of
                        (None, r) \<Rightarrow> r
                      | (Some e, r) \<Rightarrow> r\<lparr>database := cross_mark @ u '' Error: '' @ take 50 (str_exn e)\<rparr>);
          response = response\<lparr>database_url := Some (set_or_not env ''DATABASE_URL'')\<rparr>;
          response = response\<lparr>database_name := Some (set_or_not env ''DATABASE_NAME'')\<rparr>
      in Inr response)"

section \<open>Identifiers\<close>

definition is_hex :: "nat \<Rightarrow> bool" where
  "is_hex c = ((48 \<le> c \<and> c \<le> 57) \<or> (65 \<le> c \<and> c \<le> 70) \<or> (97 \<le> c \<and> c \<le> 102))"

text \<open>ASCII case folding; other code points are left as they are.\<close>

definition lower :: "nat \<Rightarrow> nat" where
  "lower c = (if 65 \<le> c \<and> c \<le> 90 then c + 32 else c)"

text \<open>
  \<open>bytes.fromhex\<close> on a \<open>str\<close>, as the hexadecimal digits of the bytes it returns:
  ASCII whitespace is skipped in front of a byte, a byte is two hexadecimal digits next to
  each other, and anything else raises \<open>ValueError\<close> (\<open>None\<close>).
\<close>

definition is_space :: "nat \<Rightarrow> bool" where
  "is_space c = (c = 32 \<or> (9 \<le> c \<and> c \<le> 13))"

fun fromhex :: "ustr \<Rightarrow> ustr option" where
  "fromhex [] = Some []"
| "fromhex [c] = (if is_space c then Some [] else None)"
| "fromhex (c # c' # cs) =
     (if is_space c then fromhex (c' # cs)
      else if is_hex c \<and> is_hex c' then map_option (\<lambda>h. lower c # lower c' # h) (fromhex cs)
      else None)"

text \<open>
  The text of the driver's \<open>InvalidId\<close>: \<open>"%r is not a valid ObjectId, ..." % oid\<close>.
  Python's \<open>repr\<close> of a text chooses the quotes and escapes by the characters of the text
  and the Unicode tables; it is the parameter \<open>repr\<close> of the model.
\<close>

definition InvalidId_text :: "(ustr \<Rightarrow> ustr) \<Rightarrow> ustr \<Rightarrow> ustr" where
  "InvalidId_text repr s =
     repr s @
     u '' is not a valid ObjectId, it must be a 12-byte input or a 24-character hex string''"

text \<open>
  \<open>ObjectId(task_id)\<close> on a \<open>str\<close>: a text of 24 characters that \<open>bytes.fromhex\<close>
  accepts gives an identifier of the bytes it returns (12 bytes when the text is 24
  hexadecimal digits, fewer when it holds whitespace); anything else raises \<open>InvalidId\<close>.
\<close>

definition ObjectId :: "(ustr \<Rightarrow> ustr) \<Rightarrow> ustr \<Rightarrow> exn + oid" where
  "ObjectId repr s =
     (if length s = 24 then
        (case fromhex s of
           Some h \<Rightarrow> Inr (Oid h)
         | None \<Rightarrow> Inl (Exception (InvalidId_text repr s)))
      else Inl (Exception (InvalidId_text repr s)))"

section \<open>Request bodies\<close>

text \<open>
  A JSON request body is a dictionary of values as the framework has coerced them (a
  \<open>due_date\<close> arrives as a timestamp); \<open>VNone\<close> is JSON \<open>null\<close>. A field declared
  \<open>Optional[T] = None\<close> accepts a value of \<open>T\<close> or \<open>null\<close> and is \<open>None\<close> when the
  key is absent; a field declared \<open>str\<close> is required. Keys that are not fields of the
  class are ignored. The result \<open>None\<close> of a field or of a class is a validation error:
  the framework answers 422 and does not call the handler.
\<close>

fun required_str :: "val option \<Rightarrow> ustr option" where
  "required_str (Some (VStr s)) = Some s"
| "required_str _ = None"

fun optional_str :: "val option \<Rightarrow> ustr option option" where
  "optional_str None = Some None"
| "optional_str (Some VNone) = Some None"
| "optional_str (Some (VStr s)) = Some (Some s)"
| "optional_str _ = None"

fun optional_datetime :: "val option \<Rightarrow> datetime option option" where
  "optional_datetime None = Some None"
| "optional_datetime (Some VNone) = Some None"
| "optional_datetime (Some (VDate t)) = Some (Some t)"
| "optional_datetime _ = None"

fun optional_bool :: "val option \<Rightarrow> bool option option" where
  "optional_bool None = Some None"
| "optional_bool (Some VNone) = Some None"
| "optional_bool (Some (VBool b)) = Some (Some b)"
| "optional_bool _ = None"

record task_create =
  title :: ustr
  description :: "ustr option"
  category :: "ustr option"
  due_date :: "datetime option"
  priority :: "ustr option"

text \<open>
  Modelled from the spec: the \<open>Task\<close> schema of \<open>schemas.py\<close>, which is not part of the
  sources read here. Its attributes are those of section 3 of the specification that a
  caller supplies: the five of a create request and \<open>completed\<close>; it validates nothing
  beyond their types.
\<close>

record task = task_create +
  completed :: bool

record task_update =
  title :: "ustr option"
  description :: "ustr option"
  category :: "ustr option"
  due_date :: "datetime option"
  priority :: "ustr option"
  completed :: "bool option"

definition TaskCreate :: "document \<Rightarrow> task_create option" where
  "TaskCreate body =
     Option.bind (required_str (map_of body ''title'')) (\<lambda>t.
     Option.bind (optional_str (map_of body ''description'')) (\<lambda>d.
     Option.bind (optional_str (map_of body ''category'')) (\<lambda>c.
     Option.bind (optional_datetime (map_of body ''due_date'')) (\<lambda>dd.
     Option.bind (optional_str (map_of body ''priority'')) (\<lambda>p.
       Some \<lparr>task_create.title = t, task_create.description = d,
             task_create.category = c, task_create.due_date = dd,
             task_create.priority = p\<rparr>)))))"

definition TaskUpdate :: "document \<Rightarrow> task_update option" where
  "TaskUpdate body =
     Option.bind (optional_str (map_of body ''title'')) (\<lambda>t.
     Option.bind (optional_str (map_of body ''description'')) (\<lambda>d.
     Option.bind (optional_str (map_of body ''category'')) (\<lambda>c.
     Option.bind (optional_datetime (map_of body ''due_date'')) (\<lambda>dd.
     Option.bind (optional_str (map_of body ''priority'')) (\<lambda>p.
     Option.bind (optional_bool (map_of body ''completed'')) (\<lambda>b.
       Some \<lparr>task_update.title = t, task_update.description = d,
             task_update.category = c, task_update.due_date = dd,
             task_update.priority = p, task_update.completed = b\<rparr>))))))"

text \<open>\<open>model_dump()\<close>: every field of the class in declaration order, \<open>None\<close> included.\<close>

definition dump_str :: "ustr option \<Rightarrow> val" where
  "dump_str v = (case v of None \<Rightarrow> VNone | Some s \<Rightarrow> VStr s)"

definition dump_datetime :: "datetime option \<Rightarrow> val" where
  "dump_datetime v = (case v of None \<Rightarrow> VNone | Some t \<Rightarrow> VDate t)"

definition dump_bool :: "bool option \<Rightarrow> val" where
  "dump_bool v = (case v of None \<Rightarrow> VNone | Some b \<Rightarrow> VBool b)"

definition model_dump_task :: "task \<Rightarrow> document" where
  "model_dump_task t =
     [(''title'', VStr (task_create.title t)),
      (''description'', dump_str (task_create.description t)),
      (''category'', dump_str (task_create.category t)),
      (''due_date'', dump_datetime (task_create.due_date t)),
      (''priority'', dump_str (task_create.priority t)),
      (''completed'', VBool (task.completed t))]"

definition model_dump_update :: "task_update \<Rightarrow> document" where
  "model_dump_update p =
     [(''title'', dump_str (task_update.title p)),
      (''description'', dump_str (task_update.description p)),
      (''category'', dump_str (task_update.category p)),
      (''due_date'', dump_datetime (task_update.due_date p)),
      (''priority'', dump_str (task_update.priority p)),
      (''completed'', dump_bool (task_update.completed p))]"

text \<open>The two \<open>except\<close> shapes of the handlers.\<close>

fun except_Exception :: "exn + 'a \<Rightarrow> exn + 'a" where
  "except_Exception (Inr r) = Inr r"
| "except_Exception (Inl e) = Inl (HTTPException 500 (str_exn e))"

fun except_HTTPException_Exception :: "exn + 'a \<Rightarrow> exn + 'a" where
  "except_HTTPException_Exception (Inr r) = Inr r"
| "except_HTTPException_Exception (Inl (HTTPException c d)) = Inl (HTTPException c d)"
| "except_HTTPException_Exception (Inl (Exception t)) = Inl (HTTPException 500 t)"

section \<open>Store operations\<close>

text \<open>
  The store's regular expression engine is not part of the service and is a parameter of
  the model: \<open>rx pattern options\<close> is the compiled pattern, a test for "the pattern has a
  match somewhere in this text", or the error text of a pattern that does not compile.
\<close>

type_synonym regex_engine = "ustr \<Rightarrow> ustr \<Rightarrow> ustr + (ustr \<Rightarrow> bool)"

text \<open>
  The filter dictionaries \<open>list_tasks\<close> builds: under a field name either a text (equality)
  or \<open>{"$regex": pattern, "$options": options}\<close>; under \<open>$or\<close> a list of one-field
  dictionaries. The entries of a filter hold together.
\<close>

datatype cond = Eq ustr | Regex ustr ustr

datatype clause = Field string cond | Or "(string \<times> cond) list"

fun collect :: "('e + 'a) list \<Rightarrow> 'e + 'a list" where
  "collect [] = Inr []"
| "collect (x # xs) =
     (case x of Inl e \<Rightarrow> Inl e
      | Inr a \<Rightarrow> (case collect xs of Inl e \<Rightarrow> Inl e | Inr as \<Rightarrow> Inr (a # as)))"

text \<open>A regular expression matches a field that holds a text, and nothing else.\<close>

fun compile_cond :: "regex_engine \<Rightarrow> cond \<Rightarrow> ustr + (val option \<Rightarrow> bool)" where
  "compile_cond rx (Eq s) = Inr (\<lambda>v. v = Some (VStr s))"
| "compile_cond rx (Regex p opts) =
     (case rx p opts of Inl e \<Rightarrow> Inl e
      | Inr f \<Rightarrow> Inr (\<lambda>v. case v of Some (VStr s) \<Rightarrow> f s | _ \<Rightarrow> False))"

definition compile_field :: "regex_engine \<Rightarrow> string \<times> cond \<Rightarrow> ustr + (document \<Rightarrow> bool)" where
  "compile_field rx kc =
     (case compile_cond rx (snd kc) of Inl e \<Rightarrow> Inl e
      | Inr f \<Rightarrow> Inr (\<lambda>d. f (map_of d (fst kc))))"

fun compile_clause :: "regex_engine \<Rightarrow> clause \<Rightarrow> ustr + (document \<Rightarrow> bool)" where
  "compile_clause rx (Field k c) = compile_field rx (k, c)"
| "compile_clause rx (Or kcs) =
     (case collect (map (compile_field rx) kcs) of Inl e \<Rightarrow> Inl e
      | Inr ps \<Rightarrow> Inr (\<lambda>d. list_ex (\<lambda>p. p d) ps))"

definition compile_filter :: "regex_engine \<Rightarrow> clause list \<Rightarrow> ustr + (document \<Rightarrow> bool)" where
  "compile_filter rx cs =
     (case collect (map (compile_clause rx) cs) of Inl e \<Rightarrow> Inl e
      | Inr ps \<Rightarrow> Inr (\<lambda>d. list_all (\<lambda>p. p d) ps))"

text \<open>
  \<open>list(db[c].find(flt))\<close>: the documents of the collection that satisfy the filter, in
  the store's order. A pattern that does not compile fails the whole query.
\<close>

definition collection_find :: "regex_engine \<Rightarrow> mongo \<Rightarrow> string \<Rightarrow> clause list \<Rightarrow> exn + document list" where
  "collection_find rx m c flt =
     (case fault m of Some msg \<Rightarrow> Inl (Exception msg)
      | None \<Rightarrow>
          (case compile_filter rx flt of Inl e \<Rightarrow> Inl (Exception e)
           | Inr p \<Rightarrow> Inr (filter p (collection m c))))"

text \<open>
  \<open>db[c].insert_one(doc)\<close> for a document without \<open>_id\<close>: the driver generates the
  identifier \<open>new_id\<close>, which no stored document has, and the store appends the document.
\<close>

definition insert_one :: "mongo \<Rightarrow> string \<Rightarrow> oid \<Rightarrow> document \<Rightarrow> exn + oid \<times> mongo" where
  "insert_one m c new_id doc =
     (case fault m of Some msg \<Rightarrow> Inl (Exception msg)
      | None \<Rightarrow>
          Inr (new_id,
               m\<lparr>colls := AList.update c (collection m c @ [(''_id'', VId new_id) # doc]) (colls m)\<rparr>))"

definition has_id :: "oid \<Rightarrow> document \<Rightarrow> bool" where
  "has_id i d = (map_of d ''_id'' = Some (VId i))"

text \<open>\<open>{"$set": data}\<close> assigns every field of \<open>data\<close> in the document.\<close>

definition set_fields :: "document \<Rightarrow> document \<Rightarrow> document" where
  "set_fields data d = fold (\<lambda>kv. AList.update (fst kv) (snd kv)) data d"

fun update_first :: "('a \<Rightarrow> bool) \<Rightarrow> ('a \<Rightarrow> 'a) \<Rightarrow> 'a list \<Rightarrow> 'a option \<times> 'a list" where
  "update_first P f [] = (None, [])"
| "update_first P f (d # ds) =
     (if P d then (Some (f d), f d # ds)
      else (case update_first P f ds of (r, ds') \<Rightarrow> (r, d # ds')))"

fun delete_first :: "('a \<Rightarrow> bool) \<Rightarrow> 'a list \<Rightarrow> nat \<times> 'a list" where
  "delete_first P [] = (0, [])"
| "delete_first P (d # ds) =
     (if P d then (1, ds)
      else (case delete_first P ds of (n, ds') \<Rightarrow> (n, d # ds')))"

text \<open>
  \<open>db[c].find_one_and_update({"_id": i}, {"$set": data}, return_document=True)\<close>: the first
  document with this identifier is updated in place and returned as updated; \<open>None\<close>
  is returned, and nothing written, when there is none.
\<close>

definition find_one_and_update :: "mongo \<Rightarrow> string \<Rightarrow> oid \<Rightarrow> document \<Rightarrow> exn + document option \<times> mongo" where
  "find_one_and_update m c i data =
     (case fault m of Some msg \<Rightarrow> Inl (Exception msg)
      | None \<Rightarrow>
          (case update_first (has_id i) (set_fields data) (collection m c) of
             (None, ds') \<Rightarrow> Inr (None, m)
           | (Some d', ds') \<Rightarrow> Inr (Some d', m\<lparr>colls := AList.update c ds' (colls m)\<rparr>)))"

text \<open>\<open>db[c].delete_one({"_id": i})\<close> with its \<open>deleted_count\<close>.\<close>

definition delete_one :: "mongo \<Rightarrow> string \<Rightarrow> oid \<Rightarrow> exn + nat \<times> mongo" where
  "delete_one m c i =
     (case fault m of Some msg \<Rightarrow> Inl (Exception msg)
      | None \<Rightarrow>
          (case delete_first (has_id i) (collection m c) of
             (n, ds') \<Rightarrow>
               Inr (n, if n = 0 then m else m\<lparr>colls := AList.update c ds' (colls m)\<rparr>)))"

text \<open>
  Modelled from the spec: \<open>create_document\<close> of \<open>database.py\<close>, which is not part of the
  sources read here. By section 4.2 of the specification it inserts the document with
  server timestamps and returns the new identifier; by section 7 every failure is an
  exception. \<open>now\<close> is the clock reading.
\<close>

definition create_document :: "datetime \<Rightarrow> oid \<Rightarrow> db \<Rightarrow> string \<Rightarrow> task \<Rightarrow> (exn + ustr) \<times> db" where
  "create_document now new_id d c data =
     (case d of
        None \<Rightarrow> (Inl (Exception (u ''Database not available'')), d)
      | Some m \<Rightarrow>
          (case insert_one m c new_id
                  (model_dump_task data @ [(''created_at'', VDate now), (''updated_at'', VDate now)]) of
             Inl e \<Rightarrow> (Inl e, d)
           | Inr (i, m') \<Rightarrow> (Inr (str_oid i), Some m')))"

text \<open>
  Modelled from the spec: \<open>get_documents\<close> of \<open>database.py\<close>, which is not part of the
  sources read here. By sections 2 and 4.3 of the specification it is the store's
  \<open>find\<close> with the given filter and returns all matching documents.
\<close>

definition get_documents :: "regex_engine \<Rightarrow> db \<Rightarrow> string \<Rightarrow> clause list \<Rightarrow> exn + document list" where
  "get_documents rx d c flt =
     (case d of
        None \<Rightarrow> Inl (Exception (u ''Database not available''))
      | Some m \<Rightarrow> collection_find rx m c flt)"

section \<open>The task handlers\<close>

text \<open>\<open>POST /api/tasks\<close> (lines 76 to 83). The answer is the dictionary \<open>{"id": inserted_id}\<close>.\<close>

definition create_task :: "datetime \<Rightarrow> oid \<Rightarrow> db \<Rightarrow> task_create \<Rightarrow> (exn + document) \<times> db" where
  "create_task now new_id d payload =
     (let task = \<lparr>task_create.title = task_create.title payload,
                  task_create.description = task_create.description payload,
                  task_create.category = task_create.category payload,
                  task_create.due_date = task_create.due_date payload,
                  task_create.priority = task_create.priority payload,
                  task.completed = False\<rparr>
      in case create_document now new_id d ''task'' task of
           (r, d') \<Rightarrow>
             (except_Exception
                (case r of Inl e \<Rightarrow> Inl e | Inr inserted_id \<Rightarrow> Inr [(''id'', VStr inserted_id)]),
              d'))"

text \<open>
  The filter of \<open>list_tasks\<close> (lines 88 to 95): \<open>if category:\<close> and \<open>if q:\<close> hold for a
  text that is given and not empty.
\<close>

definition filter_dict :: "ustr option \<Rightarrow> ustr option \<Rightarrow> clause list" where
  "filter_dict cat q =
     (case cat of
        None \<Rightarrow> []
      | Some c \<Rightarrow> if c \<noteq> [] then [Field ''category'' (Eq c)] else []) @
     (case q of
        None \<Rightarrow> []
      | Some p \<Rightarrow>
          if p \<noteq> [] then [Or [(''title'', Regex p (u ''i'')), (''description'', Regex p (u ''i''))]]
          else [])"

text \<open>
  The statements that prepare a document for the answer, written out twice in the source
  (lines 99 to 105 and 124 to 130). \<open>d.pop("_id")\<close> raises \<open>KeyError\<close> on a document
  without the key.
\<close>

definition isoformat_field :: "string \<Rightarrow> document \<Rightarrow> document" where
  "isoformat_field k d =
     (case map_of d k of
        Some (VDate t) \<Rightarrow> AList.update k (VStr (isoformat t)) d
      | _ \<Rightarrow> d)"

definition normalize :: "document \<Rightarrow> exn + document" where
  "normalize d =
     (case map_of d ''_id'' of
        None \<Rightarrow> Inl (Exception ([39] @ u ''_id'' @ [39]))
      | Some i \<Rightarrow>
          Inr (isoformat_field ''due_date''
                (isoformat_field ''updated_at''
                  (isoformat_field ''created_at''
                    (AList.update ''id'' (VStr (py_str i)) (AList.delete ''_id'' d))))))"

text \<open>\<open>GET /api/tasks\<close> (lines 85 to 108); \<open>cat\<close> is the query parameter \<open>category\<close>.\<close>

definition list_tasks :: "regex_engine \<Rightarrow> db \<Rightarrow> ustr option \<Rightarrow> ustr option \<Rightarrow> exn + document list" where
  "list_tasks rx d cat q =
     except_Exception
       (case get_documents rx d ''task'' (filter_dict cat q) of
          Inl e \<Rightarrow> Inl e
        | Inr docs \<Rightarrow> collect (map normalize docs))"

text \<open>
  \<open>PATCH /api/tasks/{task_id}\<close> (lines 110 to 135). \<open>now\<close> is \<open>datetime.utcnow()\<close>;
  \<open>repr\<close> is Python's \<open>repr\<close>, which the driver calls for the text of \<open>InvalidId\<close>.
\<close>

definition update_data :: "datetime \<Rightarrow> task_update \<Rightarrow> document" where
  "update_data now payload =
     AList.update ''updated_at'' (VDate now)
       (filter (\<lambda>kv. snd kv \<noteq> VNone) (model_dump_update payload))"

definition update_task :: "(ustr \<Rightarrow> ustr) \<Rightarrow> datetime \<Rightarrow> db \<Rightarrow> ustr \<Rightarrow> task_update \<Rightarrow> (exn + document) \<times> db" where
  "update_task repr now d task_id payload =
     (case d of
        None \<Rightarrow> (except_HTTPException_Exception (Inl (Exception (u ''Database not available''))), d)
      | Some m \<Rightarrow>
          (let data = update_data now payload
           in case ObjectId repr task_id of
                Inl e \<Rightarrow> (except_HTTPException_Exception (Inl e), d)
              | Inr i \<Rightarrow>
                  (case find_one_and_update m ''task'' i data of
                     Inl e \<Rightarrow> (except_HTTPException_Exception (Inl e), d)
                   | Inr (result, m') \<Rightarrow>
                       (except_HTTPException_Exception
                          (case result of
                             None \<Rightarrow> Inl (HTTPException 404 (u ''Task not found''))
                           | Some r \<Rightarrow>
                               if r = [] then Inl (HTTPException 404 (u ''Task not found''))
                               else normalize r),
                        Some m'))))"

text \<open>\<open>DELETE /api/tasks/{task_id}\<close> (lines 137 to 149).\<close>

definition delete_task :: "(ustr \<Rightarrow> ustr) \<Rightarrow> db \<Rightarrow> ustr \<Rightarrow> (exn + document) \<times> db" where
  "delete_task repr d task_id =
     (case d of
        None \<Rightarrow> (except_HTTPException_Exception (Inl (Exception (u ''Database not available''))), d)
      | Some m \<Rightarrow>
          (case ObjectId repr task_id of
             Inl e \<Rightarrow> (except_HTTPException_Exception (Inl e), d)
           | Inr i \<Rightarrow>
               (case delete_one m ''task'' i of
                  Inl e \<Rightarrow> (except_HTTPException_Exception (Inl e), d)
                | Inr (deleted_count, m') \<Rightarrow>
                    (except_HTTPException_Exception
                       (if deleted_count = 0 then Inl (HTTPException 404 (u ''Task not found''))
                        else Inr [(''status'', VStr (u ''ok''))]),
                     Some m'))))"

text \<open>
  The two routes with a body, as the framework runs them: a body that does not validate
  is answered 422 and the handler is not called.
\<close>

definition post_tasks :: "datetime \<Rightarrow> oid \<Rightarrow> db \<Rightarrow> document \<Rightarrow> (exn + document) \<times> db" where
  "post_tasks now new_id d body =
     (case TaskCreate body of
        None \<Rightarrow> (Inl (HTTPException 422 (u ''Unprocessable Entity'')), d)
      | Some payload \<Rightarrow> create_task now new_id d payload)"

definition patch_tasks :: "(ustr \<Rightarrow> ustr) \<Rightarrow> datetime \<Rightarrow> db \<Rightarrow> ustr \<Rightarrow> document \<Rightarrow> (exn + document) \<times> db" where
  "patch_tasks repr now d task_id body =
     (case TaskUpdate body of
        None \<Rightarrow> (Inl (HTTPException 422 (u ''Unprocessable Entity'')), d)
      | Some payload \<Rightarrow> update_task repr now d task_id payload)"

section \<open>Containment, and a fragment of the pattern language\<close>


text \<open>
  A regular expression engine on the patterns made of ordinary characters and the dot,
  under the option \<open>i\<close>: an ordinary character matches itself in either case, the dot
  matches every character but the line feed, and the pattern may match anywhere in the
  text. On every other pattern or option \<open>dot_regex\<close> answers an error and says nothing
  about the store; it stands for the store's engine only on this fragment, with ASCII
  patterns and texts.
\<close>

definition metachars :: ustr where
  "metachars = [92, 94, 36, 46, 124, 63, 42, 43, 40, 41, 91, 93, 123, 125]"

definition atom_matches :: "nat \<Rightarrow> nat \<Rightarrow> bool" where
  "atom_matches p c = (if p = 46 then c \<noteq> 10 else lower p = lower c)"

fun matches_at :: "ustr \<Rightarrow> ustr \<Rightarrow> bool" where
  "matches_at [] s = True"
| "matches_at (p # ps) [] = False"
| "matches_at (p # ps) (c # cs) = (atom_matches p c \<and> matches_at ps cs)"

fun matches_in :: "ustr \<Rightarrow> ustr \<Rightarrow> bool" where
  "matches_in p [] = matches_at p []"
| "matches_in p (c # cs) = (matches_at p (c # cs) \<or> matches_in p cs)"

definition dot_regex :: regex_engine where
  "dot_regex p opts =
     (if opts = u ''i'' \<and> list_all (\<lambda>c. c = 46 \<or> \<not> List.member metachars c) p
      then Inr (matches_in p)
      else Inl (u ''pattern outside the fragment''))"

section \<open>Sample data\<close>

text \<open>A store with one task, two clock readings and a request that sets \<open>completed\<close> only.\<close>

definition sample_time :: datetime where
  "sample_time = \<lparr>year = 2024, month = 1, day = 5, hour = 3, minute = 4, second = 5,
                   microsecond = 0\<rparr>"

definition later_time :: datetime where
  "later_time = \<lparr>year = 2024, month = 2, day = 17, hour = 18, minute = 30, second = 0,
                  microsecond = 123000\<rparr>"

definition sample_id :: ustr where
  "sample_id = u ''0123456789abcdef01234567''"

definition other_id :: ustr where
  "other_id = u ''aaaaaaaaaaaaaaaaaaaaaaaa''"

definition sample_task :: document where
  "sample_task =
     [(''_id'', VId (Oid sample_id)),
      (''title'', VStr (u ''abc'')),
      (''description'', VNone),
      (''category'', VStr (u ''work'')),
      (''due_date'', VNone),
      (''priority'', VNone),
      (''completed'', VBool False),
      (''created_at'', VDate sample_time),
      (''updated_at'', VDate sample_time)]"

definition sample_store :: mongo where
  "sample_store = \<lparr>name = Some (u ''todo''), colls = [(''task'', [sample_task])], fault = None\<rparr>"

definition malformed_id :: ustr where
  "malformed_id = u ''not-an-id''"

text \<open>
  Python's \<open>repr\<close> of a text of printable ASCII characters without quote or backslash: the
  text between single quotes. The sample requests use it at such texts only.
\<close>

definition single_quoted :: "ustr \<Rightarrow> ustr" where
  "single_quoted s = [39] @ s @ [39]"

definition only_completed :: task_update where
  "only_completed =
     \<lparr>task_update.title = None, task_update.description = None, task_update.category = None,
      task_update.due_date = None, task_update.priority = None,
      task_update.completed = Some True\<rparr>"

text \<open>
  The sample task as the service answers it, and as the store holds and the service
  answers it after the sample request at the later clock reading.
\<close>

definition sample_answer :: document where
  "sample_answer =
     [(''title'', VStr (u ''abc'')),
      (''description'', VNone),
      (''category'', VStr (u ''work'')),
      (''due_date'', VNone),
      (''priority'', VNone),
      (''completed'', VBool False),
      (''created_at'', VStr (u ''2024-01-05T03:04:05'')),
      (''updated_at'', VStr (u ''2024-01-05T03:04:05'')),
      (''id'', VStr (u ''0123456789abcdef01234567''))]"

definition updated_task :: document where
  "updated_task =
     [(''_id'', VId (Oid sample_id)),
      (''title'', VStr (u ''abc'')),
      (''description'', VNone),
      (''category'', VStr (u ''work'')),
      (''due_date'', VNone),
      (''priority'', VNone),
      (''completed'', VBool True),
      (''created_at'', VDate sample_time),
      (''updated_at'', VDate later_time)]"

definition updated_answer :: document where
  "updated_answer =
     [(''title'', VStr (u ''abc'')),
      (''description'', VNone),
      (''category'', VStr (u ''work'')),
      (''due_date'', VNone),
      (''priority'', VNone),
      (''completed'', VBool True),
      (''created_at'', VStr (u ''2024-01-05T03:04:05'')),
      (''updated_at'', VStr (u ''2024-02-17T18:30:00.123000'')),
      (''id'', VStr (u ''0123456789abcdef01234567''))]"

text \<open>A request body that gives \<open>title\<close> as \<open>null\<close> and sets \<open>completed\<close>.\<close>

definition null_title_body :: document where
  "null_title_body = [(''title'', VNone), (''completed'', VBool True)]"

text \<open>A create request that also gives \<open>completed\<close>, which \<open>TaskCreate\<close> does not declare.\<close>

definition create_body :: document where
  "create_body = [(''title'', VStr (u ''new'')), (''completed'', VBool True)]"

section \<open>Auxiliary facts\<close>

lemma collect_map_Inr: "collect (map Inr xs) = Inr xs"
  by (induction xs) auto

lemma map_of_set_fields:
  "map_of (set_fields data d) = map_of d ++ map_of (rev data)"
  unfolding set_fields_def
proof (induction data arbitrary: d)
  case Nil
  show ?case by simp
next
  case (Cons kv data)
  show ?case
    by (simp add: Cons.IH update_conv' map_add_def fun_eq_iff split: option.split)
qed

lemma map_of_filter_snd:
  "distinct (map fst xs) \<Longrightarrow>
   map_of (filter (\<lambda>kv. P (snd kv)) xs) k =
     (case map_of xs k of None \<Rightarrow> None | Some v \<Rightarrow> if P v then Some v else None)"
proof (induction xs)
  case Nil
  show ?case by simp
next
  case (Cons x xs)
  then show ?case
    by (cases x) (auto simp: map_of_eq_None_iff image_iff split: option.split)
qed

lemma distinct_model_dump_update: "distinct (map fst (model_dump_update p))"
  by (simp add: model_dump_update_def)

lemma distinct_update_data: "distinct (map fst (update_data now p))"
  unfolding update_data_def
  by (intro distinct_update distinct_map_filter distinct_model_dump_update)

lemma map_of_set_fields_update_data:
  "map_of (set_fields (update_data now p) d) = map_of d ++ map_of (update_data now p)"
  proof -
  have "map_of (rev (update_data now p)) = map_of (update_data now p)"
    using distinct_update_data [of now p]
    by (subst map_of_inject_set) (simp_all add: rev_map [symmetric])
  then show ?thesis by (simp add: map_of_set_fields)
qed

lemma update_first_split:
  "\<not> list_ex P pre \<Longrightarrow> P x \<Longrightarrow>
   update_first P f (pre @ x # post) = (Some (f x), pre @ f x # post)"
  by (induction pre) auto

lemma update_first_none:
  "\<not> list_ex P ds \<Longrightarrow> update_first P f ds = (None, ds)"
  by (induction ds) auto

lemma delete_first_split:
  "\<not> list_ex P pre \<Longrightarrow> P x \<Longrightarrow> delete_first P (pre @ x # post) = (1, pre @ post)"
  by (induction pre) auto

lemma delete_first_none:
  "\<not> list_ex P ds \<Longrightarrow> delete_first P ds = (0, ds)"
  by (induction ds) auto

lemma collection_update [simp]:
  "collection (m\<lparr>colls := AList.update c ds (colls m)\<rparr>) c' = (if c' = c then ds else collection m c')"
  by (simp add: collection_def update_conv')


lemma map_of_update_data:
  "map_of (update_data now p) k =
     (if k = ''updated_at'' then Some (VDate now)
      else case map_of (model_dump_update p) k of
             None \<Rightarrow> None
           | Some v \<Rightarrow> if v = VNone then None else Some v)"
  unfolding update_data_def
  using map_of_filter_snd [OF distinct_model_dump_update, of "\<lambda>v. v \<noteq> VNone" p k]
  by (simp add: update_conv' split: option.split)

lemma has_id_set_fields:
  "has_id i (set_fields (update_data now p) d) = has_id i d"
proof -
  have "map_of (model_dump_update p) ''_id'' = None"
    by (simp add: model_dump_update_def)
  then show ?thesis
    by (simp add: has_id_def map_of_set_fields_update_data map_add_def map_of_update_data)
qed

lemma update_task_found:
  assumes "fault m = None" and "ObjectId repr task_id = Inr i"
    and "collection m ''task'' = pre @ doc # post"
    and "\<not> list_ex (has_id i) pre" and "has_id i doc"
  shows "update_task repr now (Some m) task_id payload =
           (normalize (set_fields (update_data now payload) doc),
            Some (m\<lparr>colls := AList.update ''task''
                     (pre @ set_fields (update_data now payload) doc # post) (colls m)\<rparr>))"
    and "\<exists>r. normalize (set_fields (update_data now payload) doc) = Inr r"
proof -
  let ?d = "set_fields (update_data now payload) doc"
  have id: "map_of ?d ''_id'' = Some (VId i)"
    using assms(5) has_id_set_fields [of i now payload doc] by (simp add: has_id_def)
  then have ne: "?d \<noteq> []" by auto
  from id show "\<exists>r. normalize ?d = Inr r" by (simp add: normalize_def)
  then obtain r where r: "normalize ?d = Inr r" ..
  show "update_task repr now (Some m) task_id payload =
           (normalize ?d, Some (m\<lparr>colls := AList.update ''task'' (pre @ ?d # post) (colls m)\<rparr>))"
    using assms ne r
    by (simp add: update_task_def find_one_and_update_def update_first_split Let_def)
qed

lemma update_task_missing:
  assumes "fault m = None" and "ObjectId repr task_id = Inr i"
    and "\<not> list_ex (has_id i) (collection m ''task'')"
  shows "update_task repr now (Some m) task_id payload =
           (Inl (HTTPException 404 (u ''Task not found'')), Some m)"
  using assms
  by (simp add: update_task_def find_one_and_update_def update_first_none Let_def)

lemma delete_task_missing:
  assumes "fault m = None" and "ObjectId repr task_id = Inr i"
    and "\<not> list_ex (has_id i) (collection m ''task'')"
  shows "delete_task repr (Some m) task_id =
           (Inl (HTTPException 404 (u ''Task not found'')), Some m)"
  using assms
  by (simp add: delete_task_def delete_one_def delete_first_none)

section \<open>The diagnostics endpoint\<close>

text \<open>
  Claim C6. \<open>GET /test\<close> never raises and is answered 200 in every database state, with
  no connection, with a store that fails and with a store that works. When the
  enumeration of the collections succeeds the answer holds their first ten names at most;
  when it fails the \<open>database\<close> entry ends with the first 50 characters at most of the
  exception text.
\<close>

theorem test_database_always_answers:
  "\<exists>r. test_database env d = Inr r \<and> status_code (test_database env d) = 200 \<and>
       length (collections r) \<le> 10 \<and>
       (case d of
          None \<Rightarrow> collections r = [] \<and>
                  database r = warning_sign @ u ''  Available but not initialized''
        | Some m \<Rightarrow>
            (case list_collection_names m of
               Inr cs \<Rightarrow> collections r = take 10 cs \<and>
                         database r = check_mark @ u '' Connected & Working''
             | Inl e \<Rightarrow> collections r = [] \<and>
                         database r = warning_sign @ u ''  Connected but Error: '' @ take 50 (str_exn e) \<and>
                         length (take 50 (str_exn e)) \<le> 50))"
  by (simp add: test_database_def probe_def enumerate_collections_def Let_def
      split: option.split sum.split)

section \<open>Listing\<close>

lemma map_of_isoformat_field:
  "map_of (isoformat_field k d) k' =
     (if k' = k then (case map_of d k of Some (VDate t) \<Rightarrow> Some (VStr (isoformat t)) | v \<Rightarrow> v)
      else map_of d k')"
  by (simp add: isoformat_field_def update_conv' split: option.split val.split)

lemma normalize_Inr:
  assumes "map_of s ''_id'' = Some i"
  shows "\<exists>r. normalize s = Inr r \<and> map_of r ''_id'' = None \<and>
             map_of r ''id'' = Some (VStr (py_str i)) \<and>
             (\<forall>k. k \<notin> set [''_id'', ''id'', ''created_at'', ''updated_at'', ''due_date''] \<longrightarrow>
                  map_of r k = map_of s k)"
  using assms
  by (simp add: normalize_def map_of_isoformat_field update_conv' delete_conv')

lemma collect_list_all2:
  "list_all (\<lambda>x. \<exists>y. f x = Inr y \<and> P x y) xs \<Longrightarrow>
   \<exists>ys. collect (map f xs) = Inr ys \<and> list_all2 P xs ys"
proof (induction xs)
  case Nil
  then show ?case by simp
next
  case (Cons x xs)
  from Cons.prems obtain y where y: "f x = Inr y" "P x y" by auto
  from Cons obtain ys where ys: "collect (map f xs) = Inr ys" "list_all2 P xs ys" by auto
  from y ys have "collect (map f (x # xs)) = Inr (y # ys) \<and> list_all2 P (x # xs) (y # ys)"
    by simp
  then show ?case by blast
qed

lemma list_tasks_unfiltered:
  "list_tasks rx (Some m) (Some []) None =
     (case fault m of
        Some msg \<Rightarrow> Inl (HTTPException 500 msg)
      | None \<Rightarrow> except_Exception (collect (map normalize (collection m ''task''))))"
  by (simp add: filter_dict_def list_tasks_def get_documents_def collection_find_def
      compile_filter_def split: option.split)

text \<open>
  Claim C10. A \<open>category\<close> or a \<open>q\<close> given as the empty text is treated as absent: the
  filter and the answer are those of the request without the parameter. A request with
  the empty category alone, to a store that answers and whose documents all have their
  \<open>_id\<close>, is answered with as many documents as the collection holds, in the store's
  order: each one is a stored document with its identifier as text under \<open>id\<close> in place
  of \<open>_id\<close> and every field other than the identifier and the three timestamps as stored,
  the category among them, whatever it is.
\<close>

theorem empty_parameter_is_absent:
  "filter_dict (Some []) q = filter_dict None q \<and>
   filter_dict cat (Some []) = filter_dict cat None \<and>
   filter_dict (Some []) None = [] \<and>
   list_tasks rx d (Some []) q = list_tasks rx d None q \<and>
   list_tasks rx d cat (Some []) = list_tasks rx d cat None \<and>
   (fault m = None \<and> list_all (\<lambda>s. map_of s ''_id'' \<noteq> None) (collection m ''task'') \<longrightarrow>
      (\<exists>rs. list_tasks rx (Some m) (Some []) None = Inr rs \<and>
            length rs = length (collection m ''task'') \<and>
            list_all2
              (\<lambda>s r. map_of r ''_id'' = None \<and>
                     (\<exists>i. map_of s ''_id'' = Some i \<and> map_of r ''id'' = Some (VStr (py_str i))) \<and>
                     (\<forall>k. k \<notin> set [''_id'', ''id'', ''created_at'', ''updated_at'', ''due_date''] \<longrightarrow>
                          map_of r k = map_of s k))
              (collection m ''task'') rs))"
proof -
  let ?P = "\<lambda>s r. map_of r ''_id'' = None \<and>
                (\<exists>i. map_of s ''_id'' = Some i \<and> map_of r ''id'' = Some (VStr (py_str i))) \<and>
                (\<forall>k. k \<notin> set [''_id'', ''id'', ''created_at'', ''updated_at'', ''due_date''] \<longrightarrow>
                     map_of r k = map_of s k)"
  have abs: "filter_dict (Some []) q = filter_dict None q \<and>
   filter_dict cat (Some []) = filter_dict cat None \<and>
   filter_dict (Some []) None = [] \<and>
   list_tasks rx d (Some []) q = list_tasks rx d None q \<and>
   list_tasks rx d cat (Some []) = list_tasks rx d cat None"
    by (simp add: filter_dict_def list_tasks_def)
  have all: "\<exists>rs. list_tasks rx (Some m) (Some []) None = Inr rs \<and>
            length rs = length (collection m ''task'') \<and>
            list_all2 ?P (collection m ''task'') rs"
    if f: "fault m = None"
      and ids: "list_all (\<lambda>s. map_of s ''_id'' \<noteq> None) (collection m ''task'')"
  proof -
    have "list_all (\<lambda>s. \<exists>r. normalize s = Inr r \<and> ?P s r) (collection m ''task'')"
      unfolding list_all_iff
    proof
      fix s assume "s \<in> set (collection m ''task'')"
      with ids obtain i where i: "map_of s ''_id'' = Some i"
        by (auto simp: list_all_iff)
      from normalize_Inr [OF i] i show "\<exists>r. normalize s = Inr r \<and> ?P s r" by blast
    qed
    from collect_list_all2 [of normalize ?P, OF this]
    obtain rs where rs: "collect (map normalize (collection m ''task'')) = Inr rs"
      "list_all2 ?P (collection m ''task'') rs"
      by blast
    from rs(2) have "length rs = length (collection m ''task'')"
      by (simp add: list_all2_lengthD)
    moreover have "list_tasks rx (Some m) (Some []) None = Inr rs"
      using f rs(1) by (simp add: list_tasks_unfiltered)
    ultimately show ?thesis using rs(2) by blast
  qed
  from abs all show ?thesis by blast
qed

theorem empty_parameter_is_absent_witness:
  "fault sample_store = None \<and>
   list_all (\<lambda>s. map_of s ''_id'' \<noteq> None) (collection sample_store ''task'') \<and>
   map_of sample_task ''category'' = Some (VStr (u ''work'')) \<and>
   (\<exists>r. list_tasks dot_regex (Some sample_store) (Some []) None = Inr [r] \<and>
        map_of r ''id'' = Some (VStr sample_id) \<and>
        map_of r ''_id'' = None \<and>
        map_of r ''category'' = Some (VStr (u ''work'')) \<and>
        map_of r ''title'' = Some (VStr (u ''abc'')))"
proof -
  have h: "fault sample_store = None"
    "list_all (\<lambda>s. map_of s ''_id'' \<noteq> None) (collection sample_store ''task'')"
    and c: "collection sample_store ''task'' = [sample_task]"
    by (simp_all add: sample_store_def collection_def sample_task_def)
  have t: "map_of sample_task ''_id'' = Some (VId (Oid sample_id))"
    "map_of sample_task ''category'' = Some (VStr (u ''work''))"
    "map_of sample_task ''title'' = Some (VStr (u ''abc''))"
    by (simp_all add: sample_task_def)
  from empty_parameter_is_absent [of None None dot_regex None sample_store] h
  obtain rs where rs: "list_tasks dot_regex (Some sample_store) (Some []) None = Inr rs"
    and l: "list_all2
              (\<lambda>s r. map_of r ''_id'' = None \<and>
                     (\<exists>i. map_of s ''_id'' = Some i \<and> map_of r ''id'' = Some (VStr (py_str i))) \<and>
                     (\<forall>k. k \<notin> set [''_id'', ''id'', ''created_at'', ''updated_at'', ''due_date''] \<longrightarrow>
                          map_of r k = map_of s k))
              (collection sample_store ''task'') rs"
    by blast
  from l c obtain r where r: "rs = [r]" "map_of r ''_id'' = None"
    "\<exists>i. map_of sample_task ''_id'' = Some i \<and> map_of r ''id'' = Some (VStr (py_str i))"
    "\<forall>k. k \<notin> set [''_id'', ''id'', ''created_at'', ''updated_at'', ''due_date''] \<longrightarrow>
         map_of r k = map_of sample_task k"
    by (auto simp: list_all2_Cons1)
  from r(3) t(1) have "map_of r ''id'' = Some (VStr sample_id)"
    by simp
  moreover from r(4) t have "map_of r ''category'' = Some (VStr (u ''work''))"
    "map_of r ''title'' = Some (VStr (u ''abc''))"
    by simp_all
  ultimately show ?thesis using h t(2) rs r(1,2) by blast
qed

section \<open>Updating\<close>

lemma map_of_updated:
  "map_of (set_fields (update_data now p) doc) k =
     (if k = ''updated_at'' then Some (VDate now)
      else case map_of (model_dump_update p) k of
             None \<Rightarrow> map_of doc k
           | Some v \<Rightarrow> if v = VNone then map_of doc k else Some v)"
  by (simp add: map_of_set_fields_update_data map_add_def map_of_update_data
      split: option.split)

lemma updated_fields:
  fixes p :: task_update and now :: datetime and doc :: document
  defines "doc' \<equiv> set_fields (update_data now p) doc"
  shows "map_of doc' ''title'' =
           (case task_update.title p of None \<Rightarrow> map_of doc ''title'' | Some t \<Rightarrow> Some (VStr t))"
    and "map_of doc' ''description'' =
           (case task_update.description p of None \<Rightarrow> map_of doc ''description''
            | Some t \<Rightarrow> Some (VStr t))"
    and "map_of doc' ''category'' =
           (case task_update.category p of None \<Rightarrow> map_of doc ''category''
            | Some t \<Rightarrow> Some (VStr t))"
    and "map_of doc' ''due_date'' =
           (case task_update.due_date p of None \<Rightarrow> map_of doc ''due_date''
            | Some t \<Rightarrow> Some (VDate t))"
    and "map_of doc' ''priority'' =
           (case task_update.priority p of None \<Rightarrow> map_of doc ''priority''
            | Some t \<Rightarrow> Some (VStr t))"
    and "map_of doc' ''completed'' =
           (case task_update.completed p of None \<Rightarrow> map_of doc ''completed''
            | Some b \<Rightarrow> Some (VBool b))"
    and "map_of doc' ''updated_at'' = Some (VDate now)"
    and "\<forall>k. k \<notin> set [''title'', ''description'', ''category'', ''due_date'', ''priority'',
                  ''completed'', ''updated_at''] \<longrightarrow> map_of doc' k = map_of doc k"
  unfolding doc'_def
  by (simp_all add: map_of_updated model_dump_update_def dump_str_def dump_datetime_def
      dump_bool_def split: option.split)

text \<open>
  Claim C2. An update of an existing task (the store answers, the identifier parses, and
  \<open>doc\<close> is the first document of the collection with this identifier) rewrites that
  document alone. Each of the six fields of the request holds the request's value when the
  request supplies one other than \<open>None\<close> and keeps its stored value otherwise;
  \<open>updated_at\<close> holds the clock reading \<open>now\<close> whatever the request supplies; every
  other field of the document keeps its value. The answer is the updated document,
  normalized.
\<close>

theorem update_changes_supplied_fields:
  assumes "fault m = None" and "ObjectId repr task_id = Inr i"
    and "collection m ''task'' = pre @ doc # post"
    and "\<not> list_ex (has_id i) pre" and "has_id i doc"
  shows "\<exists>doc' r.
     update_task repr now (Some m) task_id payload =
       (Inr r, Some (m\<lparr>colls := AList.update ''task'' (pre @ doc' # post) (colls m)\<rparr>)) \<and>
     normalize doc' = Inr r \<and>
     map_of doc' ''updated_at'' = Some (VDate now) \<and>
     map_of doc' ''title'' =
       (case task_update.title payload of None \<Rightarrow> map_of doc ''title''
        | Some t \<Rightarrow> Some (VStr t)) \<and>
     map_of doc' ''description'' =
       (case task_update.description payload of None \<Rightarrow> map_of doc ''description''
        | Some t \<Rightarrow> Some (VStr t)) \<and>
     map_of doc' ''category'' =
       (case task_update.category payload of None \<Rightarrow> map_of doc ''category''
        | Some t \<Rightarrow> Some (VStr t)) \<and>
     map_of doc' ''due_date'' =
       (case task_update.due_date payload of None \<Rightarrow> map_of doc ''due_date''
        | Some t \<Rightarrow> Some (VDate t)) \<and>
     map_of doc' ''priority'' =
       (case task_update.priority payload of None \<Rightarrow> map_of doc ''priority''
        | Some t \<Rightarrow> Some (VStr t)) \<and>
     map_of doc' ''completed'' =
       (case task_update.completed payload of None \<Rightarrow> map_of doc ''completed''
        | Some b \<Rightarrow> Some (VBool b)) \<and>
     (\<forall>k. k \<notin> set [''title'', ''description'', ''category'', ''due_date'', ''priority'',
                    ''completed'', ''updated_at''] \<longrightarrow> map_of doc' k = map_of doc k)"
proof -
  let ?d = "set_fields (update_data now payload) doc"
  obtain r where r: "normalize ?d = Inr r"
    using update_task_found(2) [OF assms] by blast
  have "update_task repr now (Some m) task_id payload =
          (Inr r, Some (m\<lparr>colls := AList.update ''task'' (pre @ ?d # post) (colls m)\<rparr>))"
    using update_task_found(1) [OF assms, of now payload] r by simp
  then show ?thesis
    using r updated_fields [of now payload doc] by blast
qed

lemma sample_facts:
  "fault sample_store = None"
  "ObjectId repr sample_id = Inr (Oid sample_id)"
  "collection sample_store ''task'' = [] @ sample_task # []"
  "\<not> list_ex (has_id (Oid sample_id)) []"
  "has_id (Oid sample_id) sample_task"
  by (simp_all add: sample_store_def ObjectId_def sample_id_def u_def is_hex_def lower_def
      is_space_def collection_def has_id_def sample_task_def)

theorem update_changes_supplied_fields_witness:
  "fault sample_store = None \<and> ObjectId single_quoted sample_id = Inr (Oid sample_id) \<and>
   collection sample_store ''task'' = [] @ sample_task # [] \<and>
   \<not> list_ex (has_id (Oid sample_id)) [] \<and> has_id (Oid sample_id) sample_task \<and>
   (\<exists>doc' r.
     update_task single_quoted later_time (Some sample_store) sample_id only_completed =
       (Inr r, Some (sample_store\<lparr>colls := [(''task'', [doc'])]\<rparr>)) \<and>
     map_of doc' ''completed'' = Some (VBool True) \<and>
     map_of sample_task ''completed'' = Some (VBool False) \<and>
     map_of doc' ''updated_at'' = Some (VDate later_time) \<and>
     map_of sample_task ''updated_at'' = Some (VDate sample_time) \<and>
     map_of doc' ''title'' = Some (VStr (u ''abc'')) \<and>
     map_of doc' ''description'' = Some VNone \<and>
     map_of doc' ''category'' = Some (VStr (u ''work'')) \<and>
     map_of doc' ''created_at'' = Some (VDate sample_time) \<and>
     map_of doc' ''_id'' = Some (VId (Oid sample_id)))"
proof -
  note f = sample_facts(1) sample_facts(2) [of single_quoted] sample_facts(3-5)
  from update_changes_supplied_fields [OF f, of later_time only_completed]
  obtain doc' r where u:
    "update_task single_quoted later_time (Some sample_store) sample_id only_completed =
       (Inr r, Some (sample_store\<lparr>colls := AList.update ''task'' ([] @ doc' # [])
                                      (colls sample_store)\<rparr>))"
    and c: "map_of doc' ''completed'' =
       (case task_update.completed only_completed of None \<Rightarrow> map_of sample_task ''completed''
        | Some b \<Rightarrow> Some (VBool b))"
    and a: "map_of doc' ''updated_at'' = Some (VDate later_time)"
    and t: "map_of doc' ''title'' =
       (case task_update.title only_completed of None \<Rightarrow> map_of sample_task ''title''
        | Some t \<Rightarrow> Some (VStr t))"
    and d: "map_of doc' ''description'' =
       (case task_update.description only_completed of None \<Rightarrow> map_of sample_task ''description''
        | Some t \<Rightarrow> Some (VStr t))"
    and g: "map_of doc' ''category'' =
       (case task_update.category only_completed of None \<Rightarrow> map_of sample_task ''category''
        | Some t \<Rightarrow> Some (VStr t))"
    and o: "\<forall>k. k \<notin> set [''title'', ''description'', ''category'', ''due_date'', ''priority'',
                    ''completed'', ''updated_at''] \<longrightarrow> map_of doc' k = map_of sample_task k"
    by blast
  from o have o1: "map_of doc' ''created_at'' = map_of sample_task ''created_at''"
    and o2: "map_of doc' ''_id'' = map_of sample_task ''_id''"
    by simp_all
  have "update_task single_quoted later_time (Some sample_store) sample_id only_completed =
       (Inr r, Some (sample_store\<lparr>colls := [(''task'', [doc'])]\<rparr>))"
    using u by (simp add: sample_store_def)
  moreover have "map_of doc' ''completed'' = Some (VBool True)"
    using c by (simp add: only_completed_def)
  moreover have "map_of doc' ''title'' = Some (VStr (u ''abc''))"
    using t by (simp add: only_completed_def sample_task_def)
  moreover have "map_of doc' ''description'' = Some VNone"
    using d by (simp add: only_completed_def sample_task_def)
  moreover have "map_of doc' ''category'' = Some (VStr (u ''work''))"
    using g by (simp add: only_completed_def sample_task_def)
  moreover have "map_of doc' ''created_at'' = Some (VDate sample_time)"
    using o1 by (simp add: sample_task_def)
  moreover have "map_of doc' ''_id'' = Some (VId (Oid sample_id))"
    using o2 by (simp add: sample_task_def)
  moreover have "map_of sample_task ''completed'' = Some (VBool False)"
    "map_of sample_task ''updated_at'' = Some (VDate sample_time)"
    by (simp_all add: sample_task_def)
  ultimately show ?thesis using f a by blast
qed

lemma except_HTTPException_Exception_Inr [simp]:
  "(except_HTTPException_Exception x = Inr r) = (x = Inr r)"
  by (cases x rule: except_HTTPException_Exception.cases) auto

lemma except_Exception_Inr [simp]:
  "(except_Exception x = Inr r) = (x = Inr r)"
  by (cases x) auto

lemma delete_first_found:
  "delete_first P ds = (n, ds') \<Longrightarrow> n \<noteq> 0 \<Longrightarrow>
   \<exists>pre x post. ds = pre @ x # post \<and> P x \<and> \<not> list_ex P pre \<and> ds' = pre @ post"
proof (induction ds arbitrary: ds')
  case Nil
  then show ?case by simp
next
  case (Cons y ys)
  show ?case
  proof (cases "P y")
    case True
    with Cons.prems have "y # ys = [] @ y # ys \<and> P y \<and> \<not> list_ex P [] \<and> ds' = [] @ ys"
      by simp
    then show ?thesis by blast
  next
    case False
    obtain k zs where rec: "delete_first P ys = (k, zs)" by (cases "delete_first P ys")
    with False Cons.prems have n: "k = n" and ds': "ds' = y # zs" by simp_all
    from Cons.IH [OF rec [unfolded n] Cons.prems(2)]
    obtain pre x post where "ys = pre @ x # post" "P x" "\<not> list_ex P pre" "zs = pre @ post"
      by blast
    with False ds' have "y # ys = (y # pre) @ x # post \<and> P x \<and> \<not> list_ex P (y # pre) \<and>
        ds' = (y # pre) @ post"
      by simp
    then show ?thesis by blast
  qed
qed

lemma delete_task_twice:
  assumes "distinct (map (\<lambda>d. map_of d ''_id'') (tasks d1))"
    and "delete_task repr d1 task_id = (Inr r, d2)"
  shows "delete_task repr d2 task_id = (Inl (HTTPException 404 (u ''Task not found'')), d2)"
proof -
  from assms(2) obtain m where d1: "d1 = Some m"
    by (cases d1) (simp_all add: delete_task_def)
  from assms(2) d1 obtain i where i: "ObjectId repr task_id = Inr i"
    by (cases "ObjectId repr task_id") (simp_all add: delete_task_def)
  from assms(2) d1 i have f: "fault m = None"
    by (cases "fault m") (simp_all add: delete_task_def delete_one_def)
  obtain n ds' where df: "delete_first (has_id i) (collection m ''task'') = (n, ds')"
    by (cases "delete_first (has_id i) (collection m ''task'')")
  from assms(2) d1 i f df have n: "n \<noteq> 0"
    and d2: "d2 = Some (m\<lparr>colls := AList.update ''task'' ds' (colls m)\<rparr>)"
    by (auto simp: delete_task_def delete_one_def split: if_splits)
  from delete_first_found [OF df n]
  obtain pre x post where sp: "collection m ''task'' = pre @ x # post" "has_id i x" "ds' = pre @ post"
    by blast
  have "\<not> list_ex (has_id i) ds'"
    using assms(1) sp d1 by (auto simp: tasks_def has_id_def list_ex_iff image_iff)
  then show ?thesis
    using delete_task_missing [where m = "m\<lparr>colls := AList.update ''task'' ds' (colls m)\<rparr>"
        and repr = repr and task_id = task_id and i = i] i f d2
    by simp
qed

section \<open>Tasks that are not there\<close>

text \<open>
  Claim C3. With a store that answers and an identifier that parses but belongs to no
  document of the collection, an update and a delete are both answered 404 "Task not
  found" and leave the store as it was. In a collection whose identifiers are distinct, a
  delete that succeeded is answered 404 when it is repeated.
\<close>

theorem missing_task_is_not_found:
  "(fault m = None \<and> ObjectId repr task_id = Inr i \<and> \<not> list_ex (has_id i) (collection m ''task'') \<longrightarrow>
      update_task repr now (Some m) task_id payload =
        (Inl (HTTPException 404 (u ''Task not found'')), Some m) \<and>
      delete_task repr (Some m) task_id =
        (Inl (HTTPException 404 (u ''Task not found'')), Some m)) \<and>
   (distinct (map (\<lambda>d. map_of d ''_id'') (tasks d1)) \<and> delete_task repr d1 task_id1 = (Inr r, d2) \<longrightarrow>
      delete_task repr d2 task_id1 = (Inl (HTTPException 404 (u ''Task not found'')), d2))"
  using update_task_missing [where m = m and repr = repr and task_id = task_id and i = i
      and now = now and payload = payload]
    delete_task_missing [where m = m and repr = repr and task_id = task_id and i = i]
    delete_task_twice [where ?d1.0 = d1 and repr = repr and task_id = task_id1 and r = r
      and ?d2.0 = d2]
  by blast

lemma other_facts:
  "ObjectId repr other_id = Inr (Oid other_id)"
  "\<not> list_ex (has_id (Oid other_id)) (collection sample_store ''task'')"
  "distinct (map (\<lambda>d. map_of d ''_id'') (tasks (Some sample_store)))"
  "delete_task repr (Some sample_store) sample_id =
     (Inr [(''status'', VStr (u ''ok''))], Some (sample_store\<lparr>colls := [(''task'', [])]\<rparr>))"
  by (simp_all add: sample_store_def ObjectId_def other_id_def sample_id_def u_def is_hex_def
      is_space_def lower_def collection_def has_id_def sample_task_def tasks_def delete_task_def
      delete_one_def)

theorem missing_task_is_not_found_witness:
  "(fault sample_store = None \<and> ObjectId single_quoted other_id = Inr (Oid other_id) \<and>
    \<not> list_ex (has_id (Oid other_id)) (collection sample_store ''task'')) \<and>
   update_task single_quoted later_time (Some sample_store) other_id only_completed =
     (Inl (HTTPException 404 (u ''Task not found'')), Some sample_store) \<and>
   delete_task single_quoted (Some sample_store) other_id =
     (Inl (HTTPException 404 (u ''Task not found'')), Some sample_store) \<and>
   (distinct (map (\<lambda>d. map_of d ''_id'') (tasks (Some sample_store))) \<and>
    delete_task single_quoted (Some sample_store) sample_id =
      (Inr [(''status'', VStr (u ''ok''))], Some (sample_store\<lparr>colls := [(''task'', [])]\<rparr>))) \<and>
   delete_task single_quoted (Some (sample_store\<lparr>colls := [(''task'', [])]\<rparr>)) sample_id =
     (Inl (HTTPException 404 (u ''Task not found'')), Some (sample_store\<lparr>colls := [(''task'', [])]\<rparr>))"
  using missing_task_is_not_found [where m = sample_store and repr = single_quoted
      and task_id = other_id and i = "Oid other_id" and now = later_time
      and payload = only_completed and ?d1.0 = "Some sample_store" and ?task_id1.0 = sample_id
      and r = "[(''status'', VStr (u ''ok''))]"
      and ?d2.0 = "Some (sample_store\<lparr>colls := [(''task'', [])]\<rparr>)"]
    sample_facts(1) other_facts(1) [of single_quoted] other_facts(2,3)
    other_facts(4) [of single_quoted]
  by blast

section \<open>Identifiers that do not parse\<close>

lemma ObjectId_Inl:
  "ObjectId repr s = Inl e \<Longrightarrow> e = Exception (InvalidId_text repr s)"
  by (auto simp: ObjectId_def split: if_splits option.splits)

text \<open>
  Claim C5, as the specification words it, is refuted: an identifier that does not parse
  is not answered as a missing connection is. Both answers are 500, but the detail of the
  first is the text of \<open>InvalidId\<close>, which quotes the identifier, and the detail of the
  second is "Database not available": the caller tells them apart by reading the detail.
\<close>

theorem malformed_identifier_is_distinguishable:
  "fst (update_task single_quoted later_time (Some sample_store) malformed_id only_completed) =
     Inl (HTTPException 500
       ([39] @ u ''not-an-id'' @ [39] @
        u '' is not a valid ObjectId, it must be a 12-byte input or a 24-character hex string'')) \<and>
   fst (update_task single_quoted later_time None malformed_id only_completed) =
     Inl (HTTPException 500 (u ''Database not available'')) \<and>
   fst (update_task single_quoted later_time (Some sample_store) malformed_id only_completed) \<noteq>
   fst (update_task single_quoted later_time None malformed_id only_completed) \<and>
   fst (delete_task single_quoted (Some sample_store) malformed_id) \<noteq>
   fst (delete_task single_quoted None malformed_id)"
  by (simp add: update_task_def delete_task_def ObjectId_def InvalidId_text_def malformed_id_def
      single_quoted_def u_def Let_def)

text \<open>
  Claim C5, amended. When the path identifier does not parse, \<open>ObjectId\<close> raises and both
  the update and the delete are answered 500, not 404, with the text of that exception as
  detail: the \<open>repr\<close> of the identifier followed by " is not a valid ObjectId, it must be
  a 12-byte input or a 24-character hex string"; the store is left as it was. A missing
  connection is answered 500 as well, with the detail "Database not available", and so is
  a store that fails: the three share the status code and differ in the detail.
\<close>

theorem malformed_identifier_is_server_error:
  assumes "ObjectId repr task_id = Inl e"
  shows "update_task repr now (Some m) task_id payload =
           (Inl (HTTPException 500
              (repr task_id @ u '' is not a valid ObjectId, it must be a 12-byte input or a 24-character hex string'')),
            Some m) \<and>
         delete_task repr (Some m) task_id =
           (Inl (HTTPException 500
              (repr task_id @ u '' is not a valid ObjectId, it must be a 12-byte input or a 24-character hex string'')),
            Some m) \<and>
         e = Exception (repr task_id @ u '' is not a valid ObjectId, it must be a 12-byte input or a 24-character hex string'') \<and>
         status_code (fst (update_task repr now (Some m) task_id payload)) = 500 \<and>
         status_code (fst (delete_task repr (Some m) task_id)) = 500 \<and>
         update_task repr now None any_id payload =
           (Inl (HTTPException 500 (u ''Database not available'')), None) \<and>
         delete_task repr None any_id =
           (Inl (HTTPException 500 (u ''Database not available'')), None) \<and>
         status_code (fst (update_task repr now (Some (m\<lparr>fault := Some msg\<rparr>)) any_id payload)) = 500 \<and>
         status_code (fst (delete_task repr (Some (m\<lparr>fault := Some msg\<rparr>)) any_id)) = 500"
proof -
  from assms have e: "e = Exception (InvalidId_text repr task_id)"
    by (rule ObjectId_Inl)
  have u: "status_code (fst (update_task repr now (Some (m\<lparr>fault := Some msg\<rparr>)) any_id payload)) = 500"
    by (cases "ObjectId repr any_id")
       (auto simp: update_task_def find_one_and_update_def Let_def dest: ObjectId_Inl)
  have d: "status_code (fst (delete_task repr (Some (m\<lparr>fault := Some msg\<rparr>)) any_id)) = 500"
    by (cases "ObjectId repr any_id")
       (auto simp: delete_task_def delete_one_def dest: ObjectId_Inl)
  show ?thesis
    using assms e u d
    by (simp add: update_task_def delete_task_def Let_def InvalidId_text_def
       )
qed

theorem malformed_identifier_is_server_error_witness:
  "ObjectId single_quoted malformed_id = Inl (Exception (InvalidId_text single_quoted malformed_id)) \<and>
   update_task single_quoted later_time (Some sample_store) malformed_id only_completed =
     (Inl (HTTPException 500
        ([39] @ u ''not-an-id'' @ [39] @
         u '' is not a valid ObjectId, it must be a 12-byte input or a 24-character hex string'')),
      Some sample_store) \<and>
   delete_task single_quoted (Some sample_store) malformed_id =
     (Inl (HTTPException 500
        ([39] @ u ''not-an-id'' @ [39] @
         u '' is not a valid ObjectId, it must be a 12-byte input or a 24-character hex string'')),
      Some sample_store)"
proof -
  have h: "ObjectId single_quoted malformed_id =
             Inl (Exception (InvalidId_text single_quoted malformed_id))"
    by (simp add: ObjectId_def malformed_id_def u_def)
  from malformed_identifier_is_server_error [OF h, of later_time sample_store only_completed]
  show ?thesis using h by (simp add: single_quoted_def malformed_id_def)
qed

section \<open>Identifiers of stored documents\<close>

lemma update_first_map:
  "(\<And>x. P x \<Longrightarrow> g (f x) = g x) \<Longrightarrow> map g (snd (update_first P f ds)) = map g ds"
  by (induction ds) (auto split: prod.split)

lemma delete_first_subseq: "subseq (snd (delete_first P ds)) ds"
  by (induction ds) (auto split: prod.split)

lemma update_data_no_id: "''_id'' \<notin> fst ` set (update_data now payload)"
proof -
  have "map_of (update_data now payload) ''_id'' = None"
    by (simp add: map_of_update_data model_dump_update_def)
  then show ?thesis by (simp add: map_of_eq_None_iff)
qed

lemma tasks_update_task:
  "map (\<lambda>d. map_of d ''_id'') (tasks (snd (update_task repr now d task_id payload))) =
   map (\<lambda>d. map_of d ''_id'') (tasks d)"
proof (cases d)
  case None
  then show ?thesis by (simp add: update_task_def)
next
  case (Some m)
  show ?thesis
  proof (cases "ObjectId repr task_id")
    case (Inl e)
    with Some show ?thesis by (simp add: update_task_def Let_def)
  next
    case (Inr i)
    let ?f = "set_fields (update_data now payload)"
    obtain r ds' where uf: "update_first (has_id i) ?f (collection m ''task'') = (r, ds')"
      by (cases "update_first (has_id i) ?f (collection m ''task'')")
    have keep: "map_of (?f x) ''_id'' = map_of x ''_id''" for x
      using has_id_set_fields [of _ now payload x]
      by (simp add: map_of_set_fields_update_data map_add_def map_of_update_data
          model_dump_update_def)
    have "map (\<lambda>d. map_of d ''_id'') (snd (update_first (has_id i) ?f (collection m ''task''))) =
          map (\<lambda>d. map_of d ''_id'') (collection m ''task'')"
      by (rule update_first_map) (rule keep)
    with uf have m: "map (\<lambda>d. map_of d ''_id'') ds' = map (\<lambda>d. map_of d ''_id'') (collection m ''task'')"
      by simp
    show ?thesis
    proof (cases "fault m")
      case None
      with Some Inr uf m show ?thesis
        by (cases r) (simp_all add: update_task_def find_one_and_update_def tasks_def Let_def)
    next
      case (Some msg)
      with \<open>d = Some m\<close> Inr show ?thesis
        by (simp add: update_task_def find_one_and_update_def Let_def)
    qed
  qed
qed

lemma tasks_create_task:
  "prefix (tasks d) (tasks (snd (create_task now new_id d payload)))"
  by (cases d)
     (auto simp: create_task_def create_document_def insert_one_def tasks_def Let_def
       split: option.split)

lemma tasks_delete_task:
  "subseq (tasks (snd (delete_task repr d task_id))) (tasks d)"
proof (cases d)
  case None
  then show ?thesis by (simp add: delete_task_def)
next
  case (Some m)
  show ?thesis
  proof (cases "ObjectId repr task_id")
    case (Inl e)
    with Some show ?thesis by (simp add: delete_task_def)
  next
    case (Inr i)
    obtain n ds' where df: "delete_first (has_id i) (collection m ''task'') = (n, ds')"
      by (cases "delete_first (has_id i) (collection m ''task'')")
    have "subseq ds' (collection m ''task'')"
      using delete_first_subseq [of "has_id i" "collection m ''task''"] df by simp
    with Some Inr df show ?thesis
      by (cases "fault m") (simp_all add: delete_task_def delete_one_def tasks_def)
  qed
qed

text \<open>
  Claim C8. The \<open>$set\<close> document of an update never holds the key \<open>_id\<close>. An update
  leaves the \<open>_id\<close> of every document of the collection, position by position, as it
  was; a create leaves the stored documents as they were and at most appends one; a delete
  leaves the remaining documents as they were. This holds for every outcome of the three
  handlers.
\<close>

theorem identifier_is_immutable:
  "''_id'' \<notin> fst ` set (update_data now payload) \<and>
   map (\<lambda>d. map_of d ''_id'') (tasks (snd (update_task repr now d task_id payload))) =
     map (\<lambda>d. map_of d ''_id'') (tasks d) \<and>
   prefix (tasks d) (tasks (snd (create_task now new_id d new_payload))) \<and>
   subseq (tasks (snd (delete_task repr d task_id))) (tasks d)"
  using update_data_no_id tasks_update_task tasks_create_task tasks_delete_task by blast

section \<open>Answers\<close>

lemma normalize_spec:
  assumes "normalize s = Inr r"
  shows "map_of r ''_id'' = None \<and>
         (\<exists>i. map_of s ''_id'' = Some i \<and> map_of r ''id'' = Some (VStr (py_str i))) \<and>
         (\<forall>k\<in>set [''created_at'', ''updated_at'', ''due_date''].
            map_of r k = (case map_of s k of Some (VDate t) \<Rightarrow> Some (VStr (isoformat t)) | v \<Rightarrow> v)) \<and>
         (\<forall>k. k \<notin> set [''_id'', ''id'', ''created_at'', ''updated_at'', ''due_date''] \<longrightarrow>
              map_of r k = map_of s k)"
proof (cases "map_of s ''_id''")
  case None
  with assms show ?thesis by (simp add: normalize_def)
next
  case (Some i)
  with assms have r: "r = isoformat_field ''due_date''
                (isoformat_field ''updated_at''
                  (isoformat_field ''created_at''
                    (AList.update ''id'' (VStr (py_str i)) (AList.delete ''_id'' s))))"
    by (simp add: normalize_def)
  show ?thesis
    unfolding r using Some
    by (simp add: map_of_isoformat_field update_conv' delete_conv')
qed

lemma collect_Inr_list_all2:
  "collect (map f xs) = Inr ys \<Longrightarrow> list_all2 (\<lambda>x y. f x = Inr y) xs ys"
proof (induction xs arbitrary: ys)
  case Nil
  then show ?case by simp
next
  case (Cons x xs)
  then show ?case by (auto split: sum.splits)
qed

lemma update_first_Some:
  "update_first P f ds = (Some s, ds') \<Longrightarrow> s \<in> set ds' \<and> (\<exists>x\<in>set ds. P x \<and> s = f x)"
proof (induction ds arbitrary: ds')
  case Nil
  then show ?case by simp
next
  case (Cons y ys)
  then show ?case by (auto split: if_splits prod.splits)
qed


text \<open>
  Claim C7. Every document of a list answer is a document the store returned, in the
  store's order, and the document of an update answer is the stored document with the
  request's identifier as updated: without the key \<open>_id\<close>, with the text of its
  identifier under \<open>id\<close>, with each of \<open>created_at\<close>, \<open>updated_at\<close> and
  \<open>due_date\<close> that holds a timestamp rendered by \<open>isoformat\<close> (and left as it is
  otherwise), and with every other field as stored.
\<close>

theorem answers_are_normalized:
  "(list_tasks rx d cat q = Inr rs \<longrightarrow>
      (\<exists>docs. get_documents rx d ''task'' (filter_dict cat q) = Inr docs \<and>
         list_all2
           (\<lambda>s r. map_of r ''_id'' = None \<and>
              (\<exists>i. map_of s ''_id'' = Some i \<and> map_of r ''id'' = Some (VStr (py_str i))) \<and>
              (\<forall>k\<in>set [''created_at'', ''updated_at'', ''due_date''].
                 map_of r k =
                   (case map_of s k of Some (VDate t) \<Rightarrow> Some (VStr (isoformat t)) | v \<Rightarrow> v)) \<and>
              (\<forall>k. k \<notin> set [''_id'', ''id'', ''created_at'', ''updated_at'', ''due_date''] \<longrightarrow>
                   map_of r k = map_of s k))
           docs rs)) \<and>
   (update_task repr now d task_id payload = (Inr r, d') \<longrightarrow>
      (\<exists>s i. s \<in> set (tasks d') \<and> ObjectId repr task_id = Inr i \<and> has_id i s \<and>
         map_of r ''_id'' = None \<and> map_of r ''id'' = Some (VStr (str_oid i)) \<and>
         (\<forall>k\<in>set [''created_at'', ''updated_at'', ''due_date''].
            map_of r k =
              (case map_of s k of Some (VDate t) \<Rightarrow> Some (VStr (isoformat t)) | v \<Rightarrow> v)) \<and>
         (\<forall>k. k \<notin> set [''_id'', ''id'', ''created_at'', ''updated_at'', ''due_date''] \<longrightarrow>
              map_of r k = map_of s k)))"
proof -
  let ?Q = "\<lambda>s r. map_of r ''_id'' = None \<and>
              (\<exists>i. map_of s ''_id'' = Some i \<and> map_of r ''id'' = Some (VStr (py_str i))) \<and>
              (\<forall>k\<in>set [''created_at'', ''updated_at'', ''due_date''].
                 map_of r k =
                   (case map_of s k of Some (VDate t) \<Rightarrow> Some (VStr (isoformat t)) | v \<Rightarrow> v)) \<and>
              (\<forall>k. k \<notin> set [''_id'', ''id'', ''created_at'', ''updated_at'', ''due_date''] \<longrightarrow>
                   map_of r k = map_of s k)"
  have l: "\<exists>docs. get_documents rx d ''task'' (filter_dict cat q) = Inr docs \<and> list_all2 ?Q docs rs"
    if a: "list_tasks rx d cat q = Inr rs"
  proof -
    from a obtain docs where docs: "get_documents rx d ''task'' (filter_dict cat q) = Inr docs"
      and c: "collect (map normalize docs) = Inr rs"
      by (cases "get_documents rx d ''task'' (filter_dict cat q)")
         (simp_all add: list_tasks_def)
    from collect_Inr_list_all2 [OF c]
    have "list_all2 (\<lambda>x y. normalize x = Inr y) docs rs" .
    then have "list_all2 ?Q docs rs"
      by (rule list_all2_mono) (rule normalize_spec)
    with docs show ?thesis by blast
  qed
  have u: "\<exists>s i. s \<in> set (tasks d') \<and> ObjectId repr task_id = Inr i \<and> has_id i s \<and>
         map_of r ''_id'' = None \<and> map_of r ''id'' = Some (VStr (str_oid i)) \<and>
         (\<forall>k\<in>set [''created_at'', ''updated_at'', ''due_date''].
            map_of r k =
              (case map_of s k of Some (VDate t) \<Rightarrow> Some (VStr (isoformat t)) | v \<Rightarrow> v)) \<and>
         (\<forall>k. k \<notin> set [''_id'', ''id'', ''created_at'', ''updated_at'', ''due_date''] \<longrightarrow>
              map_of r k = map_of s k)"
    if a: "update_task repr now d task_id payload = (Inr r, d')"
  proof -
    from a obtain m where d: "d = Some m"
      by (cases d) (simp_all add: update_task_def)
    from a d obtain i where i: "ObjectId repr task_id = Inr i"
      by (cases "ObjectId repr task_id") (auto simp: update_task_def Let_def dest: ObjectId_Inl)
    from a d i have f: "fault m = None"
      by (cases "fault m") (simp_all add: update_task_def find_one_and_update_def Let_def)
    let ?f = "set_fields (update_data now payload)"
    obtain res ds' where uf: "update_first (has_id i) ?f (collection m ''task'') = (res, ds')"
      by (cases "update_first (has_id i) ?f (collection m ''task'')")
    from a d i f uf obtain s where res: "res = Some s" and n: "normalize s = Inr r"
      and d': "d' = Some (m\<lparr>colls := AList.update ''task'' ds' (colls m)\<rparr>)"
      by (cases res)
         (auto simp: update_task_def find_one_and_update_def Let_def split: if_splits)
    from update_first_Some [OF uf [unfolded res]]
    obtain x where s: "s \<in> set ds'" and x: "has_id i x" "s = ?f x" by blast
    from x have hs: "has_id i s" by (simp add: has_id_set_fields)
    from s d' have "s \<in> set (tasks d')" by (simp add: tasks_def)
    moreover from normalize_spec [OF n] hs have "map_of r ''id'' = Some (VStr (str_oid i))"
      by (auto simp: has_id_def)
    ultimately show ?thesis using i hs normalize_spec [OF n] by blast
  qed
  from l u show ?thesis by blast
qed


lemma digits_numeral:
  "digits 2 n = [48 + n div 10 mod 10, 48 + n mod 10]"
  "digits 4 n = [48 + n div 10 div 10 div 10 mod 10, 48 + n div 10 div 10 mod 10,
                 48 + n div 10 mod 10, 48 + n mod 10]"
  "digits 6 n = [48 + n div 10 div 10 div 10 div 10 div 10 mod 10,
                 48 + n div 10 div 10 div 10 div 10 mod 10,
                 48 + n div 10 div 10 div 10 mod 10, 48 + n div 10 div 10 mod 10,
                 48 + n div 10 mod 10, 48 + n mod 10]"
proof -
  have 2: "(2::nat) = Suc (Suc 0)" and 4: "(4::nat) = Suc (Suc (Suc (Suc 0)))"
    and 6: "(6::nat) = Suc (Suc (Suc (Suc (Suc (Suc 0)))))"
    by simp_all
  show "digits 2 n = [48 + n div 10 mod 10, 48 + n mod 10]"
    by (subst 2) simp
  show "digits 4 n = [48 + n div 10 div 10 div 10 mod 10, 48 + n div 10 div 10 mod 10,
                 48 + n div 10 mod 10, 48 + n mod 10]"
    by (subst 4) simp
  show "digits 6 n = [48 + n div 10 div 10 div 10 div 10 div 10 mod 10,
                 48 + n div 10 div 10 div 10 div 10 mod 10,
                 48 + n div 10 div 10 div 10 mod 10, 48 + n div 10 div 10 mod 10,
                 48 + n div 10 mod 10, 48 + n mod 10]"
    by (subst 6) simp
qed

lemma sample_isoformat:
  "isoformat sample_time = u ''2024-01-05T03:04:05''"
  "isoformat later_time = u ''2024-02-17T18:30:00.123000''"
  by (simp_all add: isoformat_def isoformat_sep_def sample_time_def later_time_def
      digits_numeral u_def)


lemma sample_list:
  "list_tasks rx (Some sample_store) None None = Inr [sample_answer]"
proof -
  have "normalize sample_task =
     Inr [(''title'', VStr (u ''abc'')), (''description'', VNone),
          (''category'', VStr (u ''work'')), (''due_date'', VNone), (''priority'', VNone),
          (''completed'', VBool False),
          (''created_at'', VStr (isoformat sample_time)),
          (''updated_at'', VStr (isoformat sample_time)),
          (''id'', VStr sample_id)]"
    by (simp add: normalize_def sample_task_def isoformat_field_def)
  moreover have "list_tasks rx (Some sample_store) None None =
          except_Exception (collect (map normalize [sample_task]))"
    by (simp add: list_tasks_def get_documents_def filter_dict_def collection_find_def
        compile_filter_def sample_store_def collection_def)
  ultimately show ?thesis
    by (simp add: sample_isoformat sample_answer_def sample_id_def)
qed

lemma sample_update:
  "update_task single_quoted later_time (Some sample_store) sample_id only_completed =
     (Inr updated_answer, Some (sample_store\<lparr>colls := [(''task'', [updated_task])]\<rparr>))"
proof -
  note f = sample_facts(1) sample_facts(2) [of single_quoted] sample_facts(3-5)
  have s: "set_fields (update_data later_time only_completed) sample_task = updated_task"
    by (simp add: set_fields_def update_data_def model_dump_update_def only_completed_def
        dump_str_def dump_datetime_def dump_bool_def sample_task_def updated_task_def)
  have n: "normalize updated_task = Inr updated_answer"
    by (simp add: normalize_def isoformat_field_def sample_isoformat updated_task_def
        updated_answer_def sample_id_def)
  from update_task_found(1) [OF f, of later_time only_completed]
  show ?thesis
    by (simp add: s n sample_store_def)
qed

theorem answers_are_normalized_witness:
  "list_tasks dot_regex (Some sample_store) None None = Inr [sample_answer] \<and>
   update_task single_quoted later_time (Some sample_store) sample_id only_completed =
     (Inr updated_answer, Some (sample_store\<lparr>colls := [(''task'', [updated_task])]\<rparr>)) \<and>
   (\<exists>docs. get_documents dot_regex (Some sample_store) ''task'' (filter_dict None None) = Inr docs \<and>
      list_all2
        (\<lambda>s r. map_of r ''_id'' = None \<and>
           (\<exists>i. map_of s ''_id'' = Some i \<and> map_of r ''id'' = Some (VStr (py_str i))) \<and>
           (\<forall>k\<in>set [''created_at'', ''updated_at'', ''due_date''].
              map_of r k =
                (case map_of s k of Some (VDate t) \<Rightarrow> Some (VStr (isoformat t)) | v \<Rightarrow> v)) \<and>
           (\<forall>k. k \<notin> set [''_id'', ''id'', ''created_at'', ''updated_at'', ''due_date''] \<longrightarrow>
                map_of r k = map_of s k))
        docs [sample_answer]) \<and>
   (\<exists>s i. s \<in> set (tasks (Some (sample_store\<lparr>colls := [(''task'', [updated_task])]\<rparr>))) \<and>
      ObjectId single_quoted sample_id = Inr i \<and> has_id i s \<and>
      map_of updated_answer ''_id'' = None \<and>
      map_of updated_answer ''id'' = Some (VStr (str_oid i)) \<and>
      (\<forall>k\<in>set [''created_at'', ''updated_at'', ''due_date''].
         map_of updated_answer k =
           (case map_of s k of Some (VDate t) \<Rightarrow> Some (VStr (isoformat t)) | v \<Rightarrow> v)) \<and>
      (\<forall>k. k \<notin> set [''_id'', ''id'', ''created_at'', ''updated_at'', ''due_date''] \<longrightarrow>
           map_of updated_answer k = map_of s k))"
  using answers_are_normalized [where rx = dot_regex and d = "Some sample_store" and cat = None
      and q = None and rs = "[sample_answer]" and repr = single_quoted and now = later_time
      and task_id = sample_id and payload = only_completed and r = updated_answer
      and d' = "Some (sample_store\<lparr>colls := [(''task'', [updated_task])]\<rparr>)"]
    sample_list [of dot_regex] sample_update
  by blast

section \<open>Fields given as null\<close>

lemma optional_null:
  assumes "map_of body k = Some VNone"
  shows "optional_str (map_of (AList.delete k body) k') = optional_str (map_of body k')"
    and "optional_datetime (map_of (AList.delete k body) k') = optional_datetime (map_of body k')"
    and "optional_bool (map_of (AList.delete k body) k') = optional_bool (map_of body k')"
  using assms by (simp_all add: delete_conv')

lemma TaskUpdate_delete_null:
  "map_of body k = Some VNone \<Longrightarrow> TaskUpdate (AList.delete k body) = TaskUpdate body"
  by (simp add: TaskUpdate_def optional_null)

lemma TaskUpdate_Some:
  assumes "TaskUpdate body = Some p"
  shows "optional_str (map_of body ''title'') = Some (task_update.title p)"
    and "optional_str (map_of body ''description'') = Some (task_update.description p)"
    and "optional_str (map_of body ''category'') = Some (task_update.category p)"
    and "optional_datetime (map_of body ''due_date'') = Some (task_update.due_date p)"
    and "optional_str (map_of body ''priority'') = Some (task_update.priority p)"
    and "optional_bool (map_of body ''completed'') = Some (task_update.completed p)"
  using assms unfolding TaskUpdate_def by (auto simp: bind_eq_Some_conv)


lemma TaskUpdate_null_dump:
  assumes "TaskUpdate body = Some p" and "map_of body k = Some VNone"
  shows "map_of (model_dump_update p) k = None \<or> map_of (model_dump_update p) k = Some VNone"
proof -
  have "task_update.title p = None" if "k = ''title''"
    using TaskUpdate_Some(1) [OF assms(1)] assms(2) that by simp
  moreover have "task_update.description p = None" if "k = ''description''"
    using TaskUpdate_Some(2) [OF assms(1)] assms(2) that by simp
  moreover have "task_update.category p = None" if "k = ''category''"
    using TaskUpdate_Some(3) [OF assms(1)] assms(2) that by simp
  moreover have "task_update.due_date p = None" if "k = ''due_date''"
    using TaskUpdate_Some(4) [OF assms(1)] assms(2) that by simp
  moreover have "task_update.priority p = None" if "k = ''priority''"
    using TaskUpdate_Some(5) [OF assms(1)] assms(2) that by simp
  moreover have "task_update.completed p = None" if "k = ''completed''"
    using TaskUpdate_Some(6) [OF assms(1)] assms(2) that by simp
  ultimately show ?thesis
    by (simp add: model_dump_update_def dump_str_def dump_datetime_def dump_bool_def)
qed

lemma update_data_no_None: "VNone \<notin> snd ` set (update_data now p)"
proof
  assume "VNone \<in> snd ` set (update_data now p)"
  then obtain k where "(k, VNone) \<in> set (update_data now p)" by force
  with distinct_update_data [of now p] have "map_of (update_data now p) k = Some VNone"
    by simp
  then show False
    by (simp add: map_of_update_data split: if_splits option.splits)
qed

lemma tasks_update_task_field:
  assumes "k \<noteq> ''updated_at''"
    and "map_of (model_dump_update payload) k = None \<or>
         map_of (model_dump_update payload) k = Some VNone"
  shows "map (\<lambda>x. map_of x k) (tasks (snd (update_task repr now d task_id payload))) =
         map (\<lambda>x. map_of x k) (tasks d)"
proof (cases d)
  case None
  then show ?thesis by (simp add: update_task_def)
next
  case (Some m)
  show ?thesis
  proof (cases "ObjectId repr task_id")
    case (Inl e)
    with Some show ?thesis by (simp add: update_task_def Let_def)
  next
    case (Inr i)
    let ?f = "set_fields (update_data now payload)"
    obtain r ds' where uf: "update_first (has_id i) ?f (collection m ''task'') = (r, ds')"
      by (cases "update_first (has_id i) ?f (collection m ''task'')")
    have keep: "map_of (?f x) k = map_of x k" for x
      using assms by (auto simp: map_of_updated)
    have "map (\<lambda>x. map_of x k) (snd (update_first (has_id i) ?f (collection m ''task''))) =
          map (\<lambda>x. map_of x k) (collection m ''task'')"
      by (rule update_first_map) (rule keep)
    with uf have m: "map (\<lambda>x. map_of x k) ds' = map (\<lambda>x. map_of x k) (collection m ''task'')"
      by simp
    show ?thesis
    proof (cases "fault m")
      case None
      with Some Inr uf m show ?thesis
        by (cases r) (simp_all add: update_task_def find_one_and_update_def tasks_def Let_def)
    next
      case (Some msg)
      with \<open>d = Some m\<close> Inr show ?thesis
        by (simp add: update_task_def find_one_and_update_def Let_def)
    qed
  qed
qed

text \<open>
  Claim C9. A request body that gives a field as \<open>null\<close> is read, and answered, as the
  body without that field. The \<open>$set\<close> document of an update never holds \<open>None\<close>, so
  no update writes a null; and an update whose body gives a field other than
  \<open>updated_at\<close> as \<open>null\<close> leaves that field of every stored document, position by
  position, as it was, whatever the outcome of the request.
\<close>

theorem null_field_is_omitted_field:
  "(map_of body k = Some VNone \<longrightarrow>
      TaskUpdate (AList.delete k body) = TaskUpdate body \<and>
      patch_tasks repr now d task_id (AList.delete k body) = patch_tasks repr now d task_id body) \<and>
   VNone \<notin> snd ` set (update_data now payload) \<and>
   (map_of body k = Some VNone \<and> k \<noteq> ''updated_at'' \<longrightarrow>
      map (\<lambda>x. map_of x k) (tasks (snd (patch_tasks repr now d task_id body))) =
      map (\<lambda>x. map_of x k) (tasks d))"
proof -
  have 1: "TaskUpdate (AList.delete k body) = TaskUpdate body \<and>
      patch_tasks repr now d task_id (AList.delete k body) = patch_tasks repr now d task_id body"
    if "map_of body k = Some VNone"
    using TaskUpdate_delete_null [OF that] by (simp add: patch_tasks_def)
  have 3: "map (\<lambda>x. map_of x k) (tasks (snd (patch_tasks repr now d task_id body))) =
      map (\<lambda>x. map_of x k) (tasks d)"
    if n: "map_of body k = Some VNone" and k: "k \<noteq> ''updated_at''"
  proof (cases "TaskUpdate body")
    case None
    then show ?thesis by (simp add: patch_tasks_def)
  next
    case (Some p)
    from tasks_update_task_field [OF k TaskUpdate_null_dump [OF Some n]] Some
    show ?thesis by (simp add: patch_tasks_def)
  qed
  from 1 3 update_data_no_None show ?thesis by blast
qed

theorem null_field_is_omitted_field_witness:
  "map_of null_title_body ''title'' = Some VNone \<and> ''title'' \<noteq> ''updated_at'' \<and>
   AList.delete ''title'' null_title_body = [(''completed'', VBool True)] \<and>
   TaskUpdate null_title_body = Some only_completed \<and>
   TaskUpdate [(''completed'', VBool True)] = Some only_completed \<and>
   patch_tasks single_quoted later_time (Some sample_store) sample_id [(''completed'', VBool True)] =
     patch_tasks single_quoted later_time (Some sample_store) sample_id null_title_body \<and>
   map (\<lambda>x. map_of x ''title'')
     (tasks (snd (patch_tasks single_quoted later_time (Some sample_store) sample_id
                    null_title_body))) = [Some (VStr (u ''abc''))]"
proof -
  have h: "map_of null_title_body ''title'' = Some VNone" "''title'' \<noteq> ''updated_at''"
    "AList.delete ''title'' null_title_body = [(''completed'', VBool True)]"
    "map (\<lambda>x. map_of x ''title'') (tasks (Some sample_store)) = [Some (VStr (u ''abc''))]"
    "TaskUpdate null_title_body = Some only_completed"
    by (simp_all add: null_title_body_def tasks_def sample_store_def sample_task_def
        collection_def TaskUpdate_def only_completed_def)
  from null_field_is_omitted_field [of null_title_body "''title''" single_quoted later_time
      "Some sample_store" sample_id] h
  show ?thesis by simp
qed

section \<open>Creating\<close>

lemma TaskCreate_completed:
  "TaskCreate (AList.update ''completed'' v body) = TaskCreate body"
  by (simp add: TaskCreate_def update_conv')

lemma TaskCreate_title:
  "TaskCreate body = Some payload \<Longrightarrow>
   map_of body ''title'' = Some (VStr (task_create.title payload))"
  unfolding TaskCreate_def
  by (cases "map_of body ''title''" rule: required_str.cases)
     (auto simp: bind_eq_Some_conv)

text \<open>
  Claim C4. A create request whose body validates (it has a title) is answered, when the
  store works, with the identifier the store assigned, and the store holds exactly one
  more document, appended to the collection: it has that identifier, the title of the
  request, \<open>completed\<close> false and both timestamps at the clock reading. A store that
  fails and a missing connection are answered 500 with the text of the exception and
  nothing is written. A \<open>completed\<close> given in the body changes nothing of this.
\<close>

theorem create_inserts_one_task:
  assumes "TaskCreate body = Some payload"
  shows "(fault m = None \<longrightarrow>
           (\<exists>doc. post_tasks now new_id (Some m) body =
                    (Inr [(''id'', VStr (str_oid new_id))],
                     Some (m\<lparr>colls := AList.update ''task'' (collection m ''task'' @ [doc])
                                        (colls m)\<rparr>)) \<and>
                  map_of doc ''_id'' = Some (VId new_id) \<and>
                  map_of doc ''completed'' = Some (VBool False) \<and>
                  map_of doc ''title'' = map_of body ''title'' \<and>
                  map_of doc ''created_at'' = Some (VDate now) \<and>
                  map_of doc ''updated_at'' = Some (VDate now))) \<and>
         (fault m = Some msg \<longrightarrow>
            post_tasks now new_id (Some m) body = (Inl (HTTPException 500 msg), Some m)) \<and>
         post_tasks now new_id None body =
           (Inl (HTTPException 500 (u ''Database not available'')), None) \<and>
         post_tasks now new_id d (AList.update ''completed'' v body) = post_tasks now new_id d body"
proof -
  have c: "post_tasks now new_id d (AList.update ''completed'' v body) = post_tasks now new_id d body"
    by (simp add: post_tasks_def TaskCreate_completed)
  have n: "post_tasks now new_id None body =
           (Inl (HTTPException 500 (u ''Database not available'')), None)"
    using assms by (simp add: post_tasks_def create_task_def create_document_def)
  have f: "post_tasks now new_id (Some m) body = (Inl (HTTPException 500 msg), Some m)"
    if "fault m = Some msg"
    using assms that
    by (simp add: post_tasks_def create_task_def create_document_def insert_one_def)
  let ?doc = "[(''_id'', VId new_id),
               (''title'', VStr (task_create.title payload)),
               (''description'', dump_str (task_create.description payload)),
               (''category'', dump_str (task_create.category payload)),
               (''due_date'', dump_datetime (task_create.due_date payload)),
               (''priority'', dump_str (task_create.priority payload)),
               (''completed'', VBool False),
               (''created_at'', VDate now),
               (''updated_at'', VDate now)]"
  have s: "\<exists>doc. post_tasks now new_id (Some m) body =
                    (Inr [(''id'', VStr (str_oid new_id))],
                     Some (m\<lparr>colls := AList.update ''task'' (collection m ''task'' @ [doc])
                                        (colls m)\<rparr>)) \<and>
                  map_of doc ''_id'' = Some (VId new_id) \<and>
                  map_of doc ''completed'' = Some (VBool False) \<and>
                  map_of doc ''title'' = map_of body ''title'' \<and>
                  map_of doc ''created_at'' = Some (VDate now) \<and>
                  map_of doc ''updated_at'' = Some (VDate now)"
    if "fault m = None"
  proof -
    have "post_tasks now new_id (Some m) body =
            (Inr [(''id'', VStr (str_oid new_id))],
             Some (m\<lparr>colls := AList.update ''task'' (collection m ''task'' @ [?doc])
                                (colls m)\<rparr>))"
      using assms that
      by (simp add: post_tasks_def create_task_def create_document_def insert_one_def
          model_dump_task_def)
    moreover have "map_of ?doc ''_id'' = Some (VId new_id)"
      "map_of ?doc ''completed'' = Some (VBool False)"
      "map_of ?doc ''title'' = map_of body ''title''"
      "map_of ?doc ''created_at'' = Some (VDate now)"
      "map_of ?doc ''updated_at'' = Some (VDate now)"
      using TaskCreate_title [OF assms] by simp_all
    ultimately show ?thesis by blast
  qed
  from c n f s show ?thesis by blast
qed


theorem create_inserts_one_task_witness:
  "TaskCreate create_body =
     Some \<lparr>task_create.title = u ''new'', task_create.description = None,
           task_create.category = None, task_create.due_date = None,
           task_create.priority = None\<rparr> \<and>
   map_of create_body ''completed'' = Some (VBool True) \<and>
   fault sample_store = None \<and>
   (\<exists>doc. post_tasks later_time (Oid other_id) (Some sample_store) create_body =
            (Inr [(''id'', VStr other_id)],
             Some (sample_store\<lparr>colls := [(''task'', [sample_task, doc])]\<rparr>)) \<and>
          map_of doc ''_id'' = Some (VId (Oid other_id)) \<and>
          map_of doc ''completed'' = Some (VBool False) \<and>
          map_of doc ''title'' = Some (VStr (u ''new'')) \<and>
          map_of doc ''created_at'' = Some (VDate later_time) \<and>
          map_of doc ''updated_at'' = Some (VDate later_time))"
proof -
  have h: "TaskCreate create_body =
     Some \<lparr>task_create.title = u ''new'', task_create.description = None,
           task_create.category = None, task_create.due_date = None,
           task_create.priority = None\<rparr>"
    by (simp add: TaskCreate_def create_body_def)
  have f: "fault sample_store = None" "map_of create_body ''completed'' = Some (VBool True)"
    "map_of create_body ''title'' = Some (VStr (u ''new''))"
    "AList.update ''task'' (collection sample_store ''task'' @ [doc]) (colls sample_store) =
       [(''task'', [sample_task, doc])]" for doc
    by (simp_all add: sample_store_def create_body_def collection_def)
  from create_inserts_one_task [OF h, of sample_store later_time "Oid other_id"] f h
  show ?thesis by simp
qed

section \<open>Searching\<close>








end
